theory Spec2Isabelle
  imports Main
begin

section \<open>JavaScript values\<close>

text \<open>
  The servers are TypeScript programs whose request bodies, tool arguments and vendor
  payloads are untyped (\<open>any\<close>). They are modelled by one datatype of JavaScript
  values. Numbers are the integer-valued ones (limits, counts, ports); strings are lists
  of \<open>char\<close>, read as code units below 256. An \<open>Error\<close> instance carries its
  \<open>name\<close> and its \<open>message\<close>. An object is its list of own properties; a lookup
  takes the first binding of a key.
\<close>

datatype jsval =
    Undefined
  | Null
  | Bool bool
  | Num int
  | Str string
  | Arr "jsval list"
  | Obj "(string \<times> jsval) list"
  | ErrorInst string string

text \<open>
  \<open>new Error(msg)\<close>, and the \<open>TypeError\<close> the engine throws on a bad property read
  or call (the wording of its message is the engine's and plays no role below).
\<close>

definition new_Error :: "string \<Rightarrow> jsval" where
  "new_Error msg = ErrorInst ''Error'' msg"

definition new_TypeError :: "string \<Rightarrow> jsval" where
  "new_TypeError msg = ErrorInst ''TypeError'' msg"

text \<open>Truthiness, as \<open>!x\<close>, \<open>x || y\<close> and \<open>if (x)\<close> read it.\<close>

fun truthy :: "jsval \<Rightarrow> bool" where
  "truthy Undefined = False"
| "truthy Null = False"
| "truthy (Bool b) = b"
| "truthy (Num n) = (n \<noteq> 0)"
| "truthy (Str s) = (s \<noteq> [])"
| "truthy (Arr xs) = True"
| "truthy (Obj kvs) = True"
| "truthy (ErrorInst n m) = True"

text \<open>\<open>a || b\<close> on values.\<close>

definition js_or :: "jsval \<Rightarrow> jsval \<Rightarrow> jsval" where
  "js_or a b = (if truthy a then a else b)"

text \<open>
  Property read \<open>v.k\<close> for the keys the servers read (none of them is a built-in
  property of a primitive, an array or \<open>Object.prototype\<close>). On \<open>undefined\<close> and
  \<open>null\<close> the read throws; \<open>get_prop\<close> is used where the source has excluded them and
  \<open>prop_checked\<close> where it has not.
\<close>

fun get_prop :: "jsval \<Rightarrow> string \<Rightarrow> jsval" where
  "get_prop (Obj kvs) k = (case map_of kvs k of Some v \<Rightarrow> v | None \<Rightarrow> Undefined)"
| "get_prop (ErrorInst n m) k =
     (if k = ''message'' then Str m else if k = ''name'' then Str n else Undefined)"
| "get_prop v k = Undefined"

definition nullish :: "jsval \<Rightarrow> bool" where
  "nullish v = (v = Undefined \<or> v = Null)"

definition prop_checked :: "jsval \<Rightarrow> string \<Rightarrow> jsval + jsval" where
  "prop_checked v k =
     (if nullish v
      then Inl (new_TypeError (''Cannot read properties of undefined (reading '' @ k @ '')''))
      else Inr (get_prop v k))"

text \<open>Optional chaining \<open>v?.k\<close>.\<close>

definition prop_opt :: "jsval \<Rightarrow> string \<Rightarrow> jsval" where
  "prop_opt v k = (if nullish v then Undefined else get_prop v k)"

subsection \<open>Strings\<close>

definition digit_char :: "nat \<Rightarrow> char" where
  "digit_char d = char_of (of_char (CHR ''0'') + d)"

function show_nat :: "nat \<Rightarrow> string" where
  "show_nat n = (if n < 10 then [digit_char n] else show_nat (n div 10) @ [digit_char (n mod 10)])"
  by pat_completeness auto
termination
  by (relation "measure id") auto

definition show_int :: "int \<Rightarrow> string" where
  "show_int i = (if i < 0 then CHR ''-'' # show_nat (nat (- i)) else show_nat (nat i))"

text \<open>\<open>Array.prototype.join\<close> on strings.\<close>

fun join :: "string \<Rightarrow> string list \<Rightarrow> string" where
  "join sep [] = []"
| "join sep [x] = x"
| "join sep (x # y # ys) = x @ sep @ join sep (y # ys)"

text \<open>
  \<open>String(v)\<close> and the conversion a template literal applies. An array joins the
  string forms of its elements with a comma, \<open>undefined\<close> and \<open>null\<close> elements
  giving the empty string.
\<close>

fun ToString :: "jsval \<Rightarrow> string" where
  "ToString Undefined = ''undefined''"
| "ToString Null = ''null''"
| "ToString (Bool b) = (if b then ''true'' else ''false'')"
| "ToString (Num n) = show_int n"
| "ToString (Str s) = s"
| "ToString (Arr xs) =
     join '','' (map (\<lambda>x. if x = Undefined \<or> x = Null then [] else ToString x) xs)"
| "ToString (Obj kvs) = ''[object Object]''"
| "ToString (ErrorInst n m) = (if m = [] then n else n @ '': '' @ m)"

text \<open>\<open>s.startsWith(p)\<close>.\<close>

fun startsWith :: "string \<Rightarrow> string \<Rightarrow> bool" where
  "startsWith s [] = True"
| "startsWith [] (p # ps) = False"
| "startsWith (c # cs) (p # ps) = (c = p \<and> startsWith cs ps)"

text \<open>\<open>s.includes(t)\<close>: \<open>t\<close> occurs in \<open>s\<close> as a contiguous substring.\<close>

fun str_includes :: "string \<Rightarrow> string \<Rightarrow> bool" where
  "str_includes [] t = (t = [])"
| "str_includes (c # cs) t = (startsWith (c # cs) t \<or> str_includes cs t)"

text \<open>\<open>s.split(sep)\<close> for a one-character separator.\<close>

fun split_char :: "char \<Rightarrow> string \<Rightarrow> string list" where
  "split_char sep [] = [[]]"
| "split_char sep (c # cs) =
     (if c = sep then [] # split_char sep cs
      else (case split_char sep cs of
              [] \<Rightarrow> [[c]]
            | w # ws \<Rightarrow> (c # w) # ws))"

text \<open>Index read \<open>xs[i]\<close> on an array of strings: \<open>undefined\<close> out of range.\<close>

definition at_index :: "string list \<Rightarrow> int \<Rightarrow> jsval" where
  "at_index xs i = (if 0 \<le> i \<and> i < int (length xs) then Str (xs ! nat i) else Undefined)"

text \<open>\<open>xs.indexOf(x)\<close>: the first index holding \<open>x\<close>, or \<open>-1\<close>.\<close>

fun indexOf :: "string list \<Rightarrow> string \<Rightarrow> int" where
  "indexOf [] x = - 1"
| "indexOf (y # ys) x =
     (if y = x then 0 else (let i = indexOf ys x in if i < 0 then - 1 else i + 1))"

section \<open>The shared base server: transport selection\<close>

text \<open>
  \<open>BaseMCPServer.getTransportMode\<close> (packages/shared/src/base-server.ts). The
  argument is \<open>process.argv\<close>; the result is the returned string.
\<close>

definition getTransportMode :: "string list \<Rightarrow> string" where
  "getTransportMode argv =
     (let args = drop 2 argv in
      case find (\<lambda>arg. startsWith arg ''--transport'') args of
        Some transportArg \<Rightarrow>
          (if str_includes transportArg ''=''
           then (let mode = at_index (split_char (CHR ''='') transportArg) 1
                 in if mode = Str ''http'' then ''http'' else ''stdio'')
           else (let index = indexOf args transportArg;
                     mode = at_index args (index + 1)
                 in if mode = Str ''http'' then ''http'' else ''stdio''))
      | None \<Rightarrow>
          (if list_ex (\<lambda>arg. startsWith arg ''--port'' \<or> arg = ''http'') args
           then ''http''
           else ''stdio''))"

text \<open>
  White space as \<open>trim\<close> and \<open>parseInt\<close> skip it: tab, line feed, vertical tab,
  form feed, carriage return, space and no-break space.
\<close>

definition js_whitespace :: "char \<Rightarrow> bool" where
  "js_whitespace c = (of_char c \<in> {9, 10, 11, 12, 13, 32, 160 :: nat})"

definition hex_value :: "char \<Rightarrow> nat option" where
  "hex_value c =
     (let n = (of_char c :: nat) in
      if 48 \<le> n \<and> n \<le> 57 then Some (n - 48)
      else if 97 \<le> n \<and> n \<le> 102 then Some (n - 87)
      else if 65 \<le> n \<and> n \<le> 70 then Some (n - 55)
      else None)"

definition digit_value :: "nat \<Rightarrow> char \<Rightarrow> nat option" where
  "digit_value radix c =
     (case hex_value c of
        Some d \<Rightarrow> (if d < radix then Some d else None)
      | None \<Rightarrow> None)"

text \<open>The longest prefix of digits of the radix, read as a number; \<open>None\<close> when empty.\<close>

fun parse_digits :: "nat \<Rightarrow> nat option \<Rightarrow> string \<Rightarrow> nat option" where
  "parse_digits radix acc [] = acc"
| "parse_digits radix acc (c # cs) =
     (case digit_value radix c of
        None \<Rightarrow> acc
      | Some d \<Rightarrow> parse_digits radix (Some ((case acc of None \<Rightarrow> 0 | Some a \<Rightarrow> a) * radix + d)) cs)"

text \<open>
  \<open>parseInt(v)\<close> with no radix: the argument's string form, leading white space
  skipped, an optional sign, an optional \<open>0x\<close> prefix. \<open>None\<close> is \<open>NaN\<close>.
\<close>

definition parseInt :: "jsval \<Rightarrow> int option" where
  "parseInt v =
     (let s = dropWhile js_whitespace (ToString v);
          neg = (s \<noteq> [] \<and> hd s = CHR ''-'');
          s1 = (if s \<noteq> [] \<and> (hd s = CHR ''-'' \<or> hd s = CHR ''+'') then tl s else s);
          hex = (startsWith s1 ''0x'' \<or> startsWith s1 ''0X'');
          r = (if hex then parse_digits 16 None (drop 2 s1) else parse_digits 10 None s1)
      in case r of
           None \<Rightarrow> None
         | Some n \<Rightarrow> Some (if neg then - int n else int n))"

text \<open>\<open>parseInt(v) || 3000\<close>: \<open>NaN\<close> and \<open>0\<close> are falsy.\<close>

definition parseInt_or_3000 :: "jsval \<Rightarrow> int" where
  "parseInt_or_3000 v = (case parseInt v of None \<Rightarrow> 3000 | Some n \<Rightarrow> if n = 0 then 3000 else n)"

text \<open>\<open>BaseMCPServer.getPort\<close>.\<close>

definition getPort :: "string list \<Rightarrow> int" where
  "getPort argv =
     (let args = drop 2 argv in
      case find (\<lambda>arg. startsWith arg ''--port'') args of
        Some portArg \<Rightarrow>
          (if str_includes portArg ''=''
           then parseInt_or_3000 (at_index (split_char (CHR ''='') portArg) 1)
           else (let index = indexOf args portArg
                 in parseInt_or_3000 (at_index args (index + 1))))
      | None \<Rightarrow> 3000)"

text \<open>
  \<open>BaseMCPServer.run\<close>: what the switch on the transport mode starts. The third
  outcome is the \<open>default\<close> branch, which reports an unknown transport mode and
  exits with the given status.
\<close>

datatype run_outcome = RunStdio | RunHTTP int | UnknownTransportExit string int

definition run :: "string list \<Rightarrow> run_outcome" where
  "run argv =
     (let transport = getTransportMode argv;
          port = getPort argv
      in if transport = ''stdio'' then RunStdio
         else if transport = ''http'' then RunHTTP port
         else UnknownTransportExit transport 1)"

section \<open>Computations: exceptions and vendor calls\<close>

text \<open>\<open>String.prototype.trim\<close>, \<open>toLowerCase\<close> and \<open>toUpperCase\<close>.\<close>

definition trim :: "string \<Rightarrow> string" where
  "trim s = rev (dropWhile js_whitespace (rev (dropWhile js_whitespace s)))"

definition lower_char :: "char \<Rightarrow> char" where
  "lower_char c =
     (let n = (of_char c :: nat) in
      if 65 \<le> n \<and> n \<le> 90 then char_of (n + 32)
      else if 192 \<le> n \<and> n \<le> 222 \<and> n \<noteq> 215 then char_of (n + 32)
      else c)"

definition toLowerCase :: "string \<Rightarrow> string" where
  "toLowerCase s = map lower_char s"

text \<open>
  \<open>toUpperCase\<close> is applied to the names of configuration fields only, which are
  ASCII; other characters are left as they are.
\<close>

definition upper_char :: "char \<Rightarrow> char" where
  "upper_char c =
     (let n = (of_char c :: nat) in
      if 97 \<le> n \<and> n \<le> 122 then char_of (n - 32) else c)"

definition toUpperCase :: "string \<Rightarrow> string" where
  "toUpperCase s = map upper_char s"

text \<open>\<open>field.replace(/([A-Z])/g, "_$1")\<close>: an underscore before every capital.\<close>

definition is_capital :: "char \<Rightarrow> bool" where
  "is_capital c = (65 \<le> (of_char c :: nat) \<and> (of_char c :: nat) \<le> 90)"

definition underscore_capitals :: "string \<Rightarrow> string" where
  "underscore_capitals s = concat (map (\<lambda>c. if is_capital c then [CHR ''_'', c] else [c]) s)"

text \<open>
  The asynchronous calls the servers make on the vendor SDKs, the calls a stub vendor
  client would record. Objects built locally (\<open>new Campaign(id)\<close>,
  \<open>googleAds.Customer({...})\<close>, \<open>bigquery.job(id)\<close>) are the leading arguments of the
  call made on them. A field list holds the names of the SDK's \<open>Fields\<close> members in
  the order the source lists them.
\<close>

datatype object_kind = CampaignObject | AdSetObject | AdObject

datatype vendor_call =
    AdAccount_read string "string list"
  | AdAccount_getCampaigns string "string list" jsval
  | Campaign_read jsval "string list"
  | Campaign_getAdSets jsval "string list" jsval
  | AdSet_getAds jsval "string list" jsval
  | Object_getInsights object_kind jsval jsval jsval
  | BigQuery_getDatasets
  | Dataset_getTables jsval
  | Table_getMetadata jsval jsval
  | BigQuery_createQueryJob jsval
  | Job_getMetadata jsval
  | Job_getQueryResults jsval jsval
  | JobById_getQueryResults jsval jsval
  | GoogleAds_listAccessibleCustomers jsval
  | Customer_query jsval jsval string

text \<open>
  What lies outside the repository: the vendor, which answers a call with a value or
  throws one (\<open>Inl\<close>), and \<open>JSON.stringify(v, null, 2)\<close>, taken to return a string.
  For the BigQuery client, whose promises resolve to one-element tuples, the answer is
  the tuple's first component.
\<close>

record world =
  vendor :: "vendor_call \<Rightarrow> jsval + jsval"
  JSON_stringify :: "jsval \<Rightarrow> string"

text \<open>
  An asynchronous function body: it throws (\<open>Inl\<close>) or returns (\<open>Inr\<close>), and
  leaves the list of the vendor calls it made, in order.
\<close>

type_synonym 'a comp = "(jsval + 'a) \<times> vendor_call list"

definition ret :: "'a \<Rightarrow> 'a comp" where
  "ret x = (Inr x, [])"

definition throw :: "jsval \<Rightarrow> 'a comp" where
  "throw e = (Inl e, [])"

definition lift :: "jsval + 'a \<Rightarrow> 'a comp" where
  "lift r = (r, [])"

definition await_vendor :: "world \<Rightarrow> vendor_call \<Rightarrow> jsval comp" where
  "await_vendor w c = (vendor w c, [c])"

definition and_then :: "'a comp \<Rightarrow> ('a \<Rightarrow> 'b comp) \<Rightarrow> 'b comp" where
  "and_then m f =
     (case m of
        (Inl e, l) \<Rightarrow> (Inl e, l)
      | (Inr x, l) \<Rightarrow> (case f x of (r, l') \<Rightarrow> (r, l @ l')))"

definition try_catch :: "'a comp \<Rightarrow> (jsval \<Rightarrow> 'a comp) \<Rightarrow> 'a comp" where
  "try_catch m h =
     (case m of
        (Inl e, l) \<Rightarrow> (case h e of (r, l') \<Rightarrow> (r, l @ l'))
      | (Inr x, l) \<Rightarrow> (Inr x, l))"

text \<open>\<open>error instanceof Error ? error.message : String(error)\<close>.\<close>

definition errorMessage :: "jsval \<Rightarrow> string" where
  "errorMessage error = (case error of ErrorInst n m \<Rightarrow> m | _ \<Rightarrow> ToString error)"

text \<open>The tool result \<open>{ content: [{ type: "text", text: t }] }\<close>.\<close>

definition text_content :: "string \<Rightarrow> jsval" where
  "text_content t = Obj [(''content'', Arr [Obj [(''type'', Str ''text''), (''text'', Str t)]])]"

text \<open>A configuration field \<open>string | undefined\<close> as a value.\<close>

definition opt_val :: "string option \<Rightarrow> jsval" where
  "opt_val x = (case x of None \<Rightarrow> Undefined | Some s \<Rightarrow> Str s)"

text \<open>A destructuring default \<open>{ k = d }\<close>: it applies to \<open>undefined\<close> only.\<close>

definition default_to :: "jsval \<Rightarrow> jsval \<Rightarrow> jsval" where
  "default_to v d = (if v = Undefined then d else v)"

text \<open>Whether an object value has the key among its own properties.\<close>

fun has_key :: "jsval \<Rightarrow> string \<Rightarrow> bool" where
  "has_key (Obj kvs) k = (k \<in> set (map fst kvs))"
| "has_key v k = False"

text \<open>\<open>xs.map(f)\<close> with a callback that may throw: the first throw ends the map.\<close>

fun map_throwing :: "(jsval \<Rightarrow> jsval + jsval) \<Rightarrow> jsval list \<Rightarrow> jsval + jsval list" where
  "map_throwing f [] = Inr []"
| "map_throwing f (x # xs) =
     (case f x of
        Inl e \<Rightarrow> Inl e
      | Inr y \<Rightarrow> (case map_throwing f xs of Inl e \<Rightarrow> Inl e | Inr ys \<Rightarrow> Inr (y # ys)))"

definition js_map :: "(jsval \<Rightarrow> jsval + jsval) \<Rightarrow> jsval \<Rightarrow> jsval + jsval" where
  "js_map f v =
     (case v of
        Arr xs \<Rightarrow> (case map_throwing f xs of Inl e \<Rightarrow> Inl e | Inr ys \<Rightarrow> Inr (Arr ys))
      | _ \<Rightarrow> Inl (new_TypeError ''map is not a function''))"

text \<open>\<open>v.length\<close>.\<close>

definition js_length :: "jsval \<Rightarrow> jsval + jsval" where
  "js_length v =
     (case v of
        Arr xs \<Rightarrow> Inr (Num (int (length xs)))
      | Str s \<Rightarrow> Inr (Num (int (length s)))
      | _ \<Rightarrow> prop_checked v ''length'')"

section \<open>The Meta Ads server\<close>

text \<open>packages/meta-ads/src/index.ts. \<open>process.env\<close> is a partial map on names.\<close>

type_synonym environment = "string \<Rightarrow> string option"

record MetaAdsConfig =
  accessToken :: "string option"
  appId :: "string option"
  appSecret :: "string option"
  accountId :: "string option"

text \<open>The server object: \<open>this.api\<close> (set or \<open>null\<close>) and \<open>this.adsConfig\<close>.\<close>

record meta_server =
  api_ready :: bool
  adsConfig :: MetaAdsConfig

definition empty_MetaAdsConfig :: MetaAdsConfig where
  "empty_MetaAdsConfig = \<lparr>accessToken = None, appId = None, appSecret = None, accountId = None\<rparr>"

text \<open>\<open>this.adsConfig[field]\<close>.\<close>

definition MetaAdsConfig_field :: "MetaAdsConfig \<Rightarrow> string \<Rightarrow> jsval" where
  "MetaAdsConfig_field c field =
     (if field = ''accessToken'' then opt_val (accessToken c)
      else if field = ''appId'' then opt_val (appId c)
      else if field = ''appSecret'' then opt_val (appSecret c)
      else if field = ''accountId'' then opt_val (accountId c)
      else Undefined)"

definition meta_requiredFields :: "string list" where
  "meta_requiredFields = [''accessToken'', ''appId'', ''appSecret'']"

definition newline :: string where
  "newline = [char_of (10 :: nat)]"

text \<open>
  \<open>initializeMetaAds\<close>: stores the configuration read from the environment, throws
  when a required field is falsy, and otherwise sets \<open>this.api\<close>.
\<close>

definition initializeMetaAds :: "environment \<Rightarrow> meta_server \<Rightarrow> (jsval + unit) \<times> meta_server" where
  "initializeMetaAds env s =
     (let cfg = \<lparr>accessToken = env ''META_ADS_ACCESS_TOKEN'',
                 appId = env ''META_ADS_APP_ID'',
                 appSecret = env ''META_ADS_APP_SECRET'',
                 accountId = env ''META_ADS_ACCOUNT_ID''\<rparr>;
          missingFields = filter (\<lambda>field. \<not> truthy (MetaAdsConfig_field cfg field)) meta_requiredFields
      in if length missingFields > 0
         then (Inl (new_Error
                (''Missing required Meta Ads configuration. Please set the following environment variables:''
                 @ newline
                 @ join newline
                     (map (\<lambda>field. ''- META_ADS_'' @ toUpperCase (underscore_capitals field))
                        missingFields))),
               s\<lparr>adsConfig := cfg\<rparr>)
         else (Inr (), \<lparr>api_ready = True, adsConfig = cfg\<rparr>))"

text \<open>
  \<open>new MetaAdsMCPServer()\<close>: the base constructor runs \<open>initialize\<close>, which rethrows
  what \<open>initializeMetaAds\<close> throws, and then \<open>setupTools\<close>. When it returns, the field
  initialisers of the derived class run (\<open>api = null\<close>, \<open>adsConfig = {}\<close>).
\<close>

definition new_MetaAdsMCPServer :: "environment \<Rightarrow> jsval + meta_server" where
  "new_MetaAdsMCPServer env =
     (case fst (initializeMetaAds env \<lparr>api_ready = False, adsConfig = empty_MetaAdsConfig\<rparr>) of
        Inl error \<Rightarrow> Inl error
      | Inr u \<Rightarrow> Inr \<lparr>api_ready = False, adsConfig = empty_MetaAdsConfig\<rparr>)"

text \<open>
  \<open>main\<close> of a server: a failed construction ends the process with status 1 before
  any transport is started; otherwise the server runs.
\<close>

datatype 'server process_outcome = ProcessExit int | Serving 'server

definition meta_main :: "environment \<Rightarrow> meta_server process_outcome" where
  "meta_main env =
     (case new_MetaAdsMCPServer env of
        Inl error \<Rightarrow> ProcessExit 1
      | Inr s \<Rightarrow> Serving s)"

definition account_fields :: "string list" where
  "account_fields = [''id'', ''name'', ''account_status'', ''currency'', ''timezone_name'',
     ''spend_cap'', ''amount_spent'', ''balance'']"

definition campaign_list_fields :: "string list" where
  "campaign_list_fields = [''id'', ''name'', ''status'', ''objective'', ''created_time'',
     ''updated_time'', ''start_time'', ''stop_time'', ''daily_budget'', ''lifetime_budget'',
     ''budget_remaining'', ''spend_cap'']"

definition campaign_read_fields :: "string list" where
  "campaign_read_fields = [''id'', ''name'', ''status'', ''objective'', ''created_time'',
     ''updated_time'', ''start_time'', ''stop_time'', ''daily_budget'', ''lifetime_budget'',
     ''budget_remaining'', ''spend_cap'', ''bid_strategy'', ''buying_type'', ''can_use_spend_cap'']"

definition adset_fields :: "string list" where
  "adset_fields = [''id'', ''name'', ''status'', ''created_time'', ''updated_time'',
     ''start_time'', ''end_time'', ''daily_budget'', ''lifetime_budget'', ''budget_remaining'',
     ''bid_amount'', ''billing_event'', ''optimization_goal'']"

definition ad_fields :: "string list" where
  "ad_fields = [''id'', ''name'', ''status'', ''created_time'', ''updated_time'', ''creative'',
     ''tracking_specs'', ''conversion_specs'']"

definition defaultMetrics :: jsval where
  "defaultMetrics = Arr (map Str [''impressions'', ''clicks'', ''spend'', ''reach'', ''frequency'',
     ''cpm'', ''cpc'', ''ctr'', ''cost_per_result'', ''results''])"

text \<open>
  The \<open>params\<close> object of the three list operations, which the source builds the
  same way six times: \<open>{ limit: args.limit || 25 }\<close>, then \<open>filtering\<close> when
  \<open>args.status\<close> is truthy.
\<close>

definition list_params :: "jsval \<Rightarrow> jsval" where
  "list_params args =
     Obj ((''limit'', js_or (get_prop args ''limit'') (Num 25))
          # (if truthy (get_prop args ''status'')
             then [(''filtering'',
                    Arr [Obj [(''field'', Str ''status''), (''operator'', Str ''IN''),
                              (''value'', Arr [get_prop args ''status''])]])]
             else []))"

text \<open>The \<open>params\<close> object of \<open>get_insights\<close>, built the same way in both handlers.\<close>

definition insight_params :: "jsval \<Rightarrow> jsval" where
  "insight_params args =
     (if truthy (get_prop args ''datePreset'')
      then Obj [(''date_preset'', get_prop args ''datePreset'')]
      else if truthy (get_prop args ''timeRange'')
      then Obj [(''time_range'', get_prop args ''timeRange'')]
      else Obj [(''date_preset'', Str ''lifetime'')])"

text \<open>The switch on \<open>objectType\<close> of \<open>get_insights\<close>.\<close>

definition insight_object :: "jsval \<Rightarrow> object_kind comp" where
  "insight_object objectType =
     (if objectType = Str ''campaign'' then ret CampaignObject
      else if objectType = Str ''adset'' then ret AdSetObject
      else if objectType = Str ''ad'' then ret AdObject
      else throw (new_Error ''Invalid object type''))"

subsection \<open>The tools registered with the MCP server (stdio transport)\<close>

text \<open>
  The handlers passed to \<open>this.server.tool\<close>. The SDK calls a handler with arguments
  it has validated against the tool's zod schema; the handler bodies are modelled on any
  argument value.
\<close>

definition meta_list_campaigns_tool :: "world \<Rightarrow> meta_server \<Rightarrow> jsval \<Rightarrow> jsval comp" where
  "meta_list_campaigns_tool w s args =
     (if \<not> api_ready s then throw (new_Error ''Meta Ads API not initialized'')
      else try_catch
        (let theAccountId = js_or (get_prop args ''accountId'') (opt_val (accountId (adsConfig s)))
         in if \<not> truthy theAccountId
            then throw (new_Error ''No account ID provided and no default account ID configured'')
            else and_then
              (await_vendor w (AdAccount_getCampaigns (''act_'' @ ToString theAccountId)
                                 campaign_list_fields (list_params args)))
              (\<lambda>campaigns. ret (text_content (JSON_stringify w campaigns))))
        (\<lambda>error. ret (text_content (''Error listing campaigns: '' @ errorMessage error))))"

definition meta_get_campaign_tool :: "world \<Rightarrow> meta_server \<Rightarrow> jsval \<Rightarrow> jsval comp" where
  "meta_get_campaign_tool w s args =
     (if \<not> api_ready s then throw (new_Error ''Meta Ads API not initialized'')
      else try_catch
        (and_then
           (await_vendor w (Campaign_read (get_prop args ''campaignId'') campaign_read_fields))
           (\<lambda>campaignData. ret (text_content (JSON_stringify w campaignData))))
        (\<lambda>error. ret (text_content (''Error getting campaign: '' @ errorMessage error))))"

definition meta_list_adsets_tool :: "world \<Rightarrow> meta_server \<Rightarrow> jsval \<Rightarrow> jsval comp" where
  "meta_list_adsets_tool w s args =
     (if \<not> api_ready s then throw (new_Error ''Meta Ads API not initialized'')
      else try_catch
        (and_then
           (await_vendor w (Campaign_getAdSets (get_prop args ''campaignId'') adset_fields
                              (list_params args)))
           (\<lambda>adSets. ret (text_content (JSON_stringify w adSets))))
        (\<lambda>error. ret (text_content (''Error listing ad sets: '' @ errorMessage error))))"

definition meta_list_ads_tool :: "world \<Rightarrow> meta_server \<Rightarrow> jsval \<Rightarrow> jsval comp" where
  "meta_list_ads_tool w s args =
     (if \<not> api_ready s then throw (new_Error ''Meta Ads API not initialized'')
      else try_catch
        (and_then
           (await_vendor w (AdSet_getAds (get_prop args ''adSetId'') ad_fields (list_params args)))
           (\<lambda>ads. ret (text_content (JSON_stringify w ads))))
        (\<lambda>error. ret (text_content (''Error listing ads: '' @ errorMessage error))))"

definition meta_get_insights_tool :: "world \<Rightarrow> meta_server \<Rightarrow> jsval \<Rightarrow> jsval comp" where
  "meta_get_insights_tool w s args =
     (if \<not> api_ready s then throw (new_Error ''Meta Ads API not initialized'')
      else try_catch
        (and_then (insight_object (get_prop args ''objectType''))
           (\<lambda>kind. and_then
              (await_vendor w (Object_getInsights kind (get_prop args ''objectId'')
                                 (js_or (get_prop args ''metrics'') defaultMetrics)
                                 (insight_params args)))
              (\<lambda>insights. ret (text_content (JSON_stringify w insights)))))
        (\<lambda>error. ret (text_content (''Error getting insights: '' @ errorMessage error))))"

text \<open>
  \<open>get_account_info\<close> initialises the client again when \<open>this.api\<close> is not set;
  the handler returns the server with what that call stored.
\<close>

definition meta_get_account_info_tool ::
  "world \<Rightarrow> environment \<Rightarrow> meta_server \<Rightarrow> jsval \<Rightarrow> jsval comp \<times> meta_server" where
  "meta_get_account_info_tool w env s args =
     (let (init, s') = (if \<not> api_ready s then initializeMetaAds env s else (Inr (), s))
      in case init of
           Inl error \<Rightarrow> (throw error, s')
         | Inr u \<Rightarrow>
            (try_catch
               (let theAccountId = js_or (get_prop args ''accountId'') (opt_val (accountId (adsConfig s')))
                in if \<not> truthy theAccountId
                   then throw (new_Error ''No account ID provided and no default account ID configured'')
                   else and_then
                     (await_vendor w (AdAccount_read (''act_'' @ ToString theAccountId) account_fields))
                     (\<lambda>accountInfo. ret (text_content (JSON_stringify w accountInfo))))
               (\<lambda>error. ret (text_content (''Error getting account info: '' @ errorMessage error))),
             s'))"

subsection \<open>The HTTP dispatcher of the Meta Ads server\<close>

text \<open>Shorthands for the JSON schemas that \<open>handleToolsList\<close> lists.\<close>

definition string_property :: "string \<Rightarrow> jsval" where
  "string_property d = Obj [(''type'', Str ''string''), (''description'', Str d)]"

definition number_property :: "string \<Rightarrow> jsval" where
  "number_property d = Obj [(''type'', Str ''number''), (''description'', Str d)]"

definition enum_property :: "string list \<Rightarrow> string \<Rightarrow> jsval" where
  "enum_property vals d =
     Obj [(''type'', Str ''string''), (''enum'', Arr (map Str vals)), (''description'', Str d)]"

definition tool_entry :: "string \<Rightarrow> string \<Rightarrow> (string \<times> jsval) list \<Rightarrow> string list option \<Rightarrow> jsval" where
  "tool_entry name description properties required =
     Obj [(''name'', Str name), (''description'', Str description),
          (''inputSchema'',
           Obj ([(''type'', Str ''object''), (''properties'', Obj properties)]
                @ (case required of None \<Rightarrow> [] | Some r \<Rightarrow> [(''required'', Arr (map Str r))])))]"

definition status_values :: "string list" where
  "status_values = [''ACTIVE'', ''PAUSED'', ''DELETED'', ''ARCHIVED'']"

definition datePreset_values :: "string list" where
  "datePreset_values = [''today'', ''yesterday'', ''this_week'', ''last_week'', ''this_month'',
     ''last_month'', ''lifetime'']"

definition meta_tools :: "jsval list" where
  "meta_tools =
     [tool_entry ''get_account_info'' ''Get information about the Meta Ads account''
        [(''accountId'', string_property ''Account ID (uses default if not provided)'')]
        None,
      tool_entry ''list_campaigns'' ''List campaigns in the Meta Ads account''
        [(''accountId'', string_property ''Account ID (uses default if not provided)''),
         (''limit'', number_property ''Maximum number of campaigns to return (default: 25)''),
         (''status'', enum_property status_values ''Filter by campaign status'')]
        None,
      tool_entry ''get_campaign'' ''Get detailed information about a specific campaign''
        [(''campaignId'', string_property ''The campaign ID to get details for'')]
        (Some [''campaignId'']),
      tool_entry ''list_adsets'' ''List ad sets for a campaign''
        [(''campaignId'', string_property ''The campaign ID to list ad sets for''),
         (''limit'', number_property ''Maximum number of ad sets to return (default: 25)''),
         (''status'', enum_property status_values ''Filter by ad set status'')]
        (Some [''campaignId'']),
      tool_entry ''list_ads'' ''List ads for an ad set''
        [(''adSetId'', string_property ''The ad set ID to list ads for''),
         (''limit'', number_property ''Maximum number of ads to return (default: 25)''),
         (''status'', enum_property status_values ''Filter by ad status'')]
        (Some [''adSetId'']),
      tool_entry ''get_insights'' ''Get performance insights for campaigns, ad sets, or ads''
        [(''objectId'', string_property ''The ID of the campaign, ad set, or ad to get insights for''),
         (''objectType'',
          enum_property [''campaign'', ''adset'', ''ad''] ''The type of object to get insights for''),
         (''datePreset'', enum_property datePreset_values ''Date preset for the insights''),
         (''timeRange'',
          Obj [(''type'', Str ''object''),
               (''properties'',
                Obj [(''since'', string_property ''Start date (YYYY-MM-DD)''),
                     (''until'', string_property ''End date (YYYY-MM-DD)'')]),
               (''description'', Str ''Custom date range (alternative to datePreset)'')]),
         (''metrics'',
          Obj [(''type'', Str ''array''), (''items'', Obj [(''type'', Str ''string'')]),
               (''description'', Str ''Specific metrics to retrieve'')])]
        (Some [''objectId'', ''objectType''])]"

definition handleToolsList :: "jsval \<Rightarrow> jsval comp" where
  "handleToolsList request =
     ret (Obj [(''jsonrpc'', Str ''2.0''),
               (''result'', Obj [(''tools'', Arr meta_tools)]),
               (''id'', get_prop request ''id'')])"

text \<open>The names of the tools a server lists, and the \<open>required\<close> keys of one of them.\<close>

definition tool_names :: "jsval list \<Rightarrow> string list" where
  "tool_names tools = map (\<lambda>t. ToString (get_prop t ''name'')) tools"


text \<open>The cases of the switch on the tool name in \<open>handleToolCall\<close>.\<close>

definition call_get_account_info :: "world \<Rightarrow> meta_server \<Rightarrow> jsval \<Rightarrow> jsval comp" where
  "call_get_account_info w s toolArgs =
     (if \<not> api_ready s then throw (new_Error ''Meta Ads API not initialized'')
      else let theAccountId = js_or (get_prop toolArgs ''accountId'') (opt_val (accountId (adsConfig s)))
           in if \<not> truthy theAccountId
              then throw (new_Error ''No account ID provided and no default account ID configured'')
              else and_then
                (await_vendor w (AdAccount_read (''act_'' @ ToString theAccountId) account_fields))
                (\<lambda>accountInfo. ret (text_content (JSON_stringify w accountInfo))))"

definition call_list_campaigns :: "world \<Rightarrow> meta_server \<Rightarrow> jsval \<Rightarrow> jsval comp" where
  "call_list_campaigns w s toolArgs =
     (if \<not> api_ready s then throw (new_Error ''Meta Ads API not initialized'')
      else let campaignAccountId =
                 js_or (get_prop toolArgs ''accountId'') (opt_val (accountId (adsConfig s)))
           in if \<not> truthy campaignAccountId
              then throw (new_Error ''No account ID provided and no default account ID configured'')
              else and_then
                (await_vendor w (AdAccount_getCampaigns (''act_'' @ ToString campaignAccountId)
                                   campaign_list_fields (list_params toolArgs)))
                (\<lambda>campaigns. ret (text_content (JSON_stringify w campaigns))))"

definition call_get_campaign :: "world \<Rightarrow> meta_server \<Rightarrow> jsval \<Rightarrow> jsval comp" where
  "call_get_campaign w s toolArgs =
     (if \<not> api_ready s then throw (new_Error ''Meta Ads API not initialized'')
      else and_then
        (await_vendor w (Campaign_read (get_prop toolArgs ''campaignId'') campaign_read_fields))
        (\<lambda>campaignData. ret (text_content (JSON_stringify w campaignData))))"

definition call_list_adsets :: "world \<Rightarrow> meta_server \<Rightarrow> jsval \<Rightarrow> jsval comp" where
  "call_list_adsets w s toolArgs =
     (if \<not> api_ready s then throw (new_Error ''Meta Ads API not initialized'')
      else and_then
        (await_vendor w (Campaign_getAdSets (get_prop toolArgs ''campaignId'') adset_fields
                           (list_params toolArgs)))
        (\<lambda>adSets. ret (text_content (JSON_stringify w adSets))))"

definition call_list_ads :: "world \<Rightarrow> meta_server \<Rightarrow> jsval \<Rightarrow> jsval comp" where
  "call_list_ads w s toolArgs =
     (if \<not> api_ready s then throw (new_Error ''Meta Ads API not initialized'')
      else and_then
        (await_vendor w (AdSet_getAds (get_prop toolArgs ''adSetId'') ad_fields
                           (list_params toolArgs)))
        (\<lambda>ads. ret (text_content (JSON_stringify w ads))))"

definition call_get_insights :: "world \<Rightarrow> meta_server \<Rightarrow> jsval \<Rightarrow> jsval comp" where
  "call_get_insights w s toolArgs =
     (if \<not> api_ready s then throw (new_Error ''Meta Ads API not initialized'')
      else and_then (insight_object (get_prop toolArgs ''objectType''))
        (\<lambda>kind. and_then
           (await_vendor w (Object_getInsights kind (get_prop toolArgs ''objectId'')
                              (js_or (get_prop toolArgs ''metrics'') defaultMetrics)
                              (insight_params toolArgs)))
           (\<lambda>insights. ret (text_content (JSON_stringify w insights)))))"

definition meta_tool_switch :: "world \<Rightarrow> meta_server \<Rightarrow> jsval \<Rightarrow> jsval \<Rightarrow> jsval comp" where
  "meta_tool_switch w s toolName toolArgs =
     (if toolName = Str ''get_account_info'' then call_get_account_info w s toolArgs
      else if toolName = Str ''list_campaigns'' then call_list_campaigns w s toolArgs
      else if toolName = Str ''get_campaign'' then call_get_campaign w s toolArgs
      else if toolName = Str ''list_adsets'' then call_list_adsets w s toolArgs
      else if toolName = Str ''list_ads'' then call_list_ads w s toolArgs
      else if toolName = Str ''get_insights'' then call_get_insights w s toolArgs
      else throw (new_Error (''Unknown tool: '' @ ToString toolName)))"

text \<open>The two JSON-RPC envelopes of a \<open>tools/call\<close>.\<close>

definition result_envelope :: "jsval \<Rightarrow> jsval \<Rightarrow> jsval" where
  "result_envelope toolResult request_id =
     Obj [(''jsonrpc'', Str ''2.0''), (''result'', toolResult), (''id'', request_id)]"

definition error_envelope :: "int \<Rightarrow> string \<Rightarrow> jsval \<Rightarrow> jsval" where
  "error_envelope code message request_id =
     Obj [(''jsonrpc'', Str ''2.0''),
          (''error'', Obj [(''code'', Num code), (''message'', Str message)]),
          (''id'', request_id)]"

text \<open>
  \<open>handleToolCall\<close>. The request is the parsed body, on which \<open>runHTTP\<close> has already
  read \<open>method\<close>.
\<close>

definition handleToolCall :: "world \<Rightarrow> meta_server \<Rightarrow> jsval \<Rightarrow> jsval comp" where
  "handleToolCall w s request =
     (let toolName = prop_opt (get_prop request ''params'') ''name'';
          toolArgs = js_or (prop_opt (get_prop request ''params'') ''arguments'') (Obj [])
      in try_catch
           (and_then (meta_tool_switch w s toolName toolArgs)
              (\<lambda>toolResult. ret (result_envelope toolResult (get_prop request ''id''))))
           (\<lambda>error. ret (error_envelope (- 32000) (errorMessage error) (get_prop request ''id''))))"

section \<open>The shared base server: the HTTP endpoint\<close>

record ServerConfig =
  name :: string
  version :: string
  description :: string

text \<open>
  What \<open>POST /mcp\<close> answers: one server-sent event carrying the serialised response,
  or, from the outer \<open>catch\<close>, status 500 with the details of what was thrown.
\<close>

datatype http_reply = EventMessage jsval | InternalServerError string

definition initialize_result :: "string \<Rightarrow> string \<Rightarrow> jsval" where
  "initialize_result server_name server_version =
     Obj [(''protocolVersion'', Str ''2024-11-05''),
          (''capabilities'', Obj [(''tools'', Obj [(''listChanged'', Bool True)])]),
          (''serverInfo'', Obj [(''name'', Str server_name), (''version'', Str server_version)])]"

text \<open>
  The handler of \<open>POST /mcp\<close> in \<open>BaseMCPServer.runHTTP\<close>, over the two abstract
  methods of the subclass. The argument is \<open>req.body\<close>.
\<close>

definition post_mcp ::
  "ServerConfig \<Rightarrow> (jsval \<Rightarrow> jsval comp) \<Rightarrow> (jsval \<Rightarrow> jsval comp) \<Rightarrow> jsval
     \<Rightarrow> http_reply \<times> vendor_call list" where
  "post_mcp config toolsList toolCall request =
     (case and_then (lift (prop_checked request ''method''))
             (\<lambda>method.
                if method = Str ''initialize''
                then ret (result_envelope (initialize_result (name config) (version config))
                            (get_prop request ''id''))
                else if method = Str ''tools/list'' then toolsList request
                else if method = Str ''tools/call'' then toolCall request
                else ret (error_envelope (- 32601) ''Method not found'' (get_prop request ''id'')))
      of (Inr response, l) \<Rightarrow> (EventMessage response, l)
       | (Inl error, l) \<Rightarrow> (InternalServerError (errorMessage error), l))"

definition meta_ServerConfig :: ServerConfig where
  "meta_ServerConfig =
     \<lparr>name = ''meta-ads-mcp-server'', version = ''1.0.0'',
      description = ''MCP server for Meta Ads (Facebook Ads) API operations''\<rparr>"

definition meta_post_mcp :: "world \<Rightarrow> meta_server \<Rightarrow> jsval \<Rightarrow> http_reply \<times> vendor_call list" where
  "meta_post_mcp w s request = post_mcp meta_ServerConfig handleToolsList (handleToolCall w s) request"

section \<open>The Google Ads server\<close>

text \<open>packages/google-ads/src/index.ts.\<close>

record GoogleAdsConfig =
  customerId :: "string option"
  developerToken :: "string option"
  clientId :: "string option"
  clientSecret :: "string option"
  refreshToken :: "string option"

record google_server =
  googleAds_ready :: bool
  google_config :: GoogleAdsConfig

definition GoogleAdsConfig_field :: "GoogleAdsConfig \<Rightarrow> string \<Rightarrow> jsval" where
  "GoogleAdsConfig_field c field =
     (if field = ''customerId'' then opt_val (customerId c)
      else if field = ''developerToken'' then opt_val (developerToken c)
      else if field = ''clientId'' then opt_val (clientId c)
      else if field = ''clientSecret'' then opt_val (clientSecret c)
      else if field = ''refreshToken'' then opt_val (refreshToken c)
      else Undefined)"

definition google_requiredFields :: "string list" where
  "google_requiredFields =
     [''customerId'', ''developerToken'', ''clientId'', ''clientSecret'', ''refreshToken'']"

text \<open>
  \<open>initializeGoogleAds\<close>: throws when a required field of the configuration is
  falsy, and otherwise creates the client.
\<close>

definition initializeGoogleAds :: "GoogleAdsConfig \<Rightarrow> jsval + google_server" where
  "initializeGoogleAds cfg =
     (let missingFields =
            filter (\<lambda>field. \<not> truthy (GoogleAdsConfig_field cfg field)) google_requiredFields
      in if length missingFields > 0
         then Inl (new_Error
                (''Missing required Google Ads configuration. Please set the following environment variables:''
                 @ newline
                 @ join newline
                     (map (\<lambda>field. ''- GOOGLE_ADS_'' @ toUpperCase (underscore_capitals field))
                        missingFields)
                 @ newline @ newline
                 @ ''You can create a .env file in the root directory with these variables.''))
         else Inr \<lparr>googleAds_ready = True, google_config = cfg\<rparr>)"

text \<open>\<open>new GoogleAdsMCPServer()\<close>: the configuration comes from the environment.\<close>

definition new_GoogleAdsMCPServer :: "environment \<Rightarrow> jsval + google_server" where
  "new_GoogleAdsMCPServer env =
     initializeGoogleAds
       \<lparr>customerId = env ''GOOGLE_ADS_CUSTOMER_ID'',
        developerToken = env ''GOOGLE_ADS_DEVELOPER_TOKEN'',
        clientId = env ''GOOGLE_ADS_CLIENT_ID'',
        clientSecret = env ''GOOGLE_ADS_CLIENT_SECRET'',
        refreshToken = env ''GOOGLE_ADS_REFRESH_TOKEN''\<rparr>"

definition google_main :: "environment \<Rightarrow> google_server process_outcome" where
  "google_main env =
     (case new_GoogleAdsMCPServer env of
        Inl error \<Rightarrow> ProcessExit 1
      | Inr s \<Rightarrow> Serving s)"

text \<open>\<open>Array.isArray\<close> and \<open>typeof v === "object"\<close>.\<close>

fun isArray :: "jsval \<Rightarrow> bool" where
  "isArray (Arr xs) = True"
| "isArray v = False"

fun typeof_object :: "jsval \<Rightarrow> bool" where
  "typeof_object Null = True"
| "typeof_object (Arr xs) = True"
| "typeof_object (Obj kvs) = True"
| "typeof_object (ErrorInst n m) = True"
| "typeof_object v = False"

fun instanceof_Error :: "jsval \<Rightarrow> bool" where
  "instanceof_Error (ErrorInst n m) = True"
| "instanceof_Error v = False"

fun array_elements :: "jsval \<Rightarrow> jsval list" where
  "array_elements (Arr xs) = xs"
| "array_elements v = []"

text \<open>\<open>xs.join(sep)\<close> on values: \<open>undefined\<close> and \<open>null\<close> give the empty string.\<close>

definition js_join :: "string \<Rightarrow> jsval list \<Rightarrow> string" where
  "js_join sep xs = join sep (map (\<lambda>x. if x = Undefined \<or> x = Null then [] else ToString x) xs)"

text \<open>
  \<open>formatError\<close>. The result is the returned value, or what reading \<open>e.message\<close>
  on a sub-error that is \<open>undefined\<close> or \<open>null\<close> throws.
\<close>

definition formatError :: "jsval \<Rightarrow> jsval + jsval" where
  "formatError error =
     (if instanceof_Error error then Inr (get_prop error ''message'')
      else if truthy error \<and> typeof_object error
      then (if truthy (get_prop error ''errors'') \<and> isArray (get_prop error ''errors'')
            then (case map_throwing
                         (\<lambda>e. case prop_checked e ''message'' of
                                 Inl t \<Rightarrow> Inl t
                               | Inr m \<Rightarrow> Inr (js_or m (Str ''Unknown error'')))
                         (array_elements (get_prop error ''errors''))
                  of Inl t \<Rightarrow> Inl t
                   | Inr ms \<Rightarrow> Inr (Str (js_join ''; '' ms)))
            else if truthy (get_prop error ''message'') then Inr (get_prop error ''message'')
            else Inr (Str (ToString error)))
      else Inr (Str (ToString error)))"

text \<open>A handler's \<open>catch\<close> block: a text built from \<open>formatError\<close>.\<close>

definition format_catch :: "string \<Rightarrow> jsval \<Rightarrow> jsval comp" where
  "format_catch prefix error =
     and_then (lift (formatError error)) (\<lambda>m. ret (text_content (prefix @ ToString m)))"

text \<open>The query of \<open>list_campaigns\<close>, a template literal over \<open>limit\<close>.\<close>

definition list_campaigns_query :: "jsval \<Rightarrow> string" where
  "list_campaigns_query limit =
     join newline
       [[],
        ''            SELECT '',
        ''              campaign.id,'',
        ''              campaign.name,'',
        ''              campaign.status,'',
        ''              campaign.advertising_channel_type,'',
        ''              campaign.start_date,'',
        ''              campaign.end_date,'',
        ''              campaign.serving_status'',
        ''            FROM campaign'',
        ''            ORDER BY campaign.name'',
        ''            LIMIT '' @ ToString limit,
        ''          '']"

definition google_list_campaigns_tool :: "world \<Rightarrow> google_server \<Rightarrow> jsval \<Rightarrow> jsval comp" where
  "google_list_campaigns_tool w s args =
     (if \<not> googleAds_ready s then throw (new_Error ''Google Ads client not initialized'')
      else let theCustomerId =
                 js_or (get_prop args ''customerId'') (opt_val (customerId (google_config s)))
           in if \<not> truthy theCustomerId
              then ret (text_content ''Error: Customer ID is required. Please provide customerId parameter or set GOOGLE_ADS_CUSTOMER_ID environment variable.'')
              else try_catch
                (let limit = js_or (get_prop args ''limit'') (Num 50)
                 in and_then
                      (await_vendor w (Customer_query theCustomerId
                                         (opt_val (refreshToken (google_config s)))
                                         (list_campaigns_query limit)))
                      (\<lambda>campaigns. ret (text_content (JSON_stringify w campaigns))))
                (format_catch ''Error listing campaigns: ''))"

text \<open>
  The text \<open>execute_gaql_query\<close> sends: the trimmed query, with a bound appended
  unless its lower-case form contains \<open>limit\<close>. Calling \<open>trim\<close> on a value that
  is not a string throws.
\<close>

definition gaql_finalQuery :: "jsval \<Rightarrow> jsval \<Rightarrow> jsval + string" where
  "gaql_finalQuery query limit_arg =
     (case query of
        Str q \<Rightarrow>
          (let finalQuery = trim q;
               limit = js_or limit_arg (Num 100)
           in if \<not> str_includes (toLowerCase finalQuery) ''limit''
              then Inr (finalQuery @ '' LIMIT '' @ ToString limit)
              else Inr finalQuery)
      | _ \<Rightarrow> Inl (new_TypeError ''args.query.trim is not a function''))"

definition execute_gaql_query_tool :: "world \<Rightarrow> google_server \<Rightarrow> jsval \<Rightarrow> jsval comp" where
  "execute_gaql_query_tool w s args =
     (if \<not> googleAds_ready s then throw (new_Error ''Google Ads client not initialized'')
      else if \<not> truthy (get_prop args ''query'')
      then ret (text_content ''Error: Query parameter is required'')
      else try_catch
        (and_then (lift (gaql_finalQuery (get_prop args ''query'') (get_prop args ''limit'')))
           (\<lambda>finalQuery. and_then
              (await_vendor w (Customer_query (get_prop args ''customerId'')
                                 (opt_val (refreshToken (google_config s))) finalQuery))
              (\<lambda>results. ret (text_content (JSON_stringify w results)))))
        (format_catch ''Error executing GAQL query: ''))"

section \<open>The BigQuery server\<close>

text \<open>
  src/index.ts. Of the configuration the handlers read \<open>location\<close> only. A method
  called on a value the vendor returned throws when that value is not an object.
\<close>

record bigquery_server =
  bigquery_ready :: bool
  location :: string

fun is_Obj :: "jsval \<Rightarrow> bool" where
  "is_Obj (Obj kvs) = True"
| "is_Obj v = False"

definition await_method :: "world \<Rightarrow> jsval \<Rightarrow> string \<Rightarrow> vendor_call \<Rightarrow> jsval comp" where
  "await_method w obj method c =
     (if is_Obj obj then await_vendor w c
      else if nullish obj
      then throw (new_TypeError (''Cannot read properties of undefined (reading '' @ method @ '')''))
      else throw (new_TypeError (method @ '' is not a function'')))"

text \<open>
  What \<open>execute_query\<close> does after the client check and the destructuring of its
  arguments; the stdio handler wraps it in a \<open>try\<close>, the HTTP dispatcher does not.
\<close>

definition execute_query_body :: "world \<Rightarrow> bigquery_server \<Rightarrow> jsval \<Rightarrow> jsval comp" where
  "execute_query_body w s args =
     (let query = get_prop args ''query'';
          dryRun = default_to (get_prop args ''dryRun'') (Bool False);
          maxResults = default_to (get_prop args ''maxResults'') (Num 100);
          options = Obj [(''query'', query), (''location'', Str (location s)),
                         (''dryRun'', dryRun), (''maxResults'', maxResults)]
      in and_then (await_vendor w (BigQuery_createQueryJob options))
           (\<lambda>job.
              if truthy dryRun
              then and_then (await_method w job ''getMetadata'' (Job_getMetadata job))
                     (\<lambda>metadata. and_then (lift (prop_checked metadata ''statistics''))
                        (\<lambda>statistics.
                           ret (text_content (JSON_stringify w
                             (Obj [(''jobId'', get_prop job ''id''),
                                   (''valid'', Bool True),
                                   (''totalBytesProcessed'',
                                    js_or (prop_opt (prop_opt statistics ''query'') ''totalBytesProcessed'')
                                      (Str ''0'')),
                                   (''estimatedCost'', Str ''Query is valid'')])))))
              else and_then
                     (await_method w job ''getQueryResults''
                        (Job_getQueryResults job (Obj [(''maxResults'', maxResults)])))
                     (\<lambda>rows. and_then (lift (js_length rows))
                        (\<lambda>totalRows.
                           ret (text_content (JSON_stringify w
                             (Obj [(''jobId'', get_prop job ''id''),
                                   (''rows'', rows),
                                   (''totalRows'', totalRows)])))))))"

definition execute_query_tool :: "world \<Rightarrow> bigquery_server \<Rightarrow> jsval \<Rightarrow> jsval comp" where
  "execute_query_tool w s args =
     (if \<not> bigquery_ready s then throw (new_Error ''BigQuery client not initialized'')
      else try_catch (execute_query_body w s args)
             (\<lambda>error. ret (text_content (''Error executing query: '' @ errorMessage error))))"

subsection \<open>The HTTP dispatcher of the BigQuery server\<close>

text \<open>
  \<open>BigQueryMCPServer.runHTTP\<close> answers \<open>POST /mcp\<close> with its own switch; the tools
  are listed and dispatched inline.
\<close>

definition bigquery_tools :: "jsval list" where
  "bigquery_tools =
     [tool_entry ''list_datasets'' ''List all datasets in the BigQuery project'' [] (Some []),
      tool_entry ''list_tables'' ''List all tables in a specific dataset''
        [(''datasetId'', string_property ''The dataset ID to list tables from'')]
        (Some [''datasetId'']),
      tool_entry ''get_table_schema'' ''Get the schema of a specific table''
        [(''datasetId'', string_property ''The dataset ID containing the table''),
         (''tableId'', string_property ''The table ID to get schema for'')]
        (Some [''datasetId'', ''tableId'']),
      tool_entry ''execute_query'' ''Execute a BigQuery SQL query''
        [(''query'', string_property ''The SQL query to execute''),
         (''dryRun'',
          Obj [(''type'', Str ''boolean''),
               (''description'', Str ''If true, only validate the query without executing it'')]),
         (''maxResults'', number_property ''Maximum number of results to return (default: 100)'')]
        (Some [''query'']),
      tool_entry ''get_query_results'' ''Get results from a previously executed query job''
        [(''jobId'', string_property ''The job ID of the query to get results for''),
         (''maxResults'', number_property ''Maximum number of results to return (default: 100)'')]
        (Some [''jobId''])]"

text \<open>\<open>x.metadata?.k || null\<close>.\<close>

definition metadata_or_null :: "jsval \<Rightarrow> string \<Rightarrow> jsval" where
  "metadata_or_null x k = js_or (prop_opt (get_prop x ''metadata'') k) Null"

definition bq_list_datasets :: "world \<Rightarrow> bigquery_server \<Rightarrow> jsval comp" where
  "bq_list_datasets w s =
     (if \<not> bigquery_ready s then throw (new_Error ''BigQuery client not initialized'')
      else and_then (await_vendor w BigQuery_getDatasets)
        (\<lambda>datasets. and_then
           (lift (js_map
              (\<lambda>dataset. case prop_checked dataset ''id'' of
                 Inl t \<Rightarrow> Inl t
               | Inr i \<Rightarrow> Inr (Obj [(''id'', i),
                                  (''friendlyName'', metadata_or_null dataset ''friendlyName''),
                                  (''description'', metadata_or_null dataset ''description''),
                                  (''location'', metadata_or_null dataset ''location''),
                                  (''creationTime'', metadata_or_null dataset ''creationTime'')]))
              datasets))
           (\<lambda>datasetList. ret (text_content (JSON_stringify w datasetList)))))"

definition bq_list_tables :: "world \<Rightarrow> bigquery_server \<Rightarrow> jsval \<Rightarrow> jsval comp" where
  "bq_list_tables w s toolArgs =
     (if \<not> bigquery_ready s then throw (new_Error ''BigQuery client not initialized'')
      else and_then (await_vendor w (Dataset_getTables (get_prop toolArgs ''datasetId'')))
        (\<lambda>tables. and_then
           (lift (js_map
              (\<lambda>table. case prop_checked table ''id'' of
                 Inl t \<Rightarrow> Inl t
               | Inr i \<Rightarrow> Inr (Obj [(''id'', i),
                                  (''friendlyName'', metadata_or_null table ''friendlyName''),
                                  (''description'', metadata_or_null table ''description''),
                                  (''type'', metadata_or_null table ''type''),
                                  (''numRows'', metadata_or_null table ''numRows''),
                                  (''numBytes'', metadata_or_null table ''numBytes''),
                                  (''creationTime'', metadata_or_null table ''creationTime''),
                                  (''lastModifiedTime'', metadata_or_null table ''lastModifiedTime'')]))
              tables))
           (\<lambda>tableList. ret (text_content (JSON_stringify w tableList)))))"

definition bq_get_table_schema :: "world \<Rightarrow> bigquery_server \<Rightarrow> jsval \<Rightarrow> jsval comp" where
  "bq_get_table_schema w s toolArgs =
     (if \<not> bigquery_ready s then throw (new_Error ''BigQuery client not initialized'')
      else let schemaDatasetId = get_prop toolArgs ''datasetId'';
               tableId = get_prop toolArgs ''tableId''
           in and_then (await_vendor w (Table_getMetadata schemaDatasetId tableId))
                (\<lambda>metadata. and_then (lift (prop_checked metadata ''schema''))
                   (\<lambda>schema_field.
                      ret (text_content (JSON_stringify w
                        (Obj [(''tableId'', tableId),
                              (''datasetId'', schemaDatasetId),
                              (''schema'', schema_field),
                              (''numRows'', get_prop metadata ''numRows''),
                              (''numBytes'', get_prop metadata ''numBytes''),
                              (''creationTime'', get_prop metadata ''creationTime''),
                              (''lastModifiedTime'', get_prop metadata ''lastModifiedTime''),
                              (''friendlyName'', get_prop metadata ''friendlyName''),
                              (''description'', get_prop metadata ''description'')]))))))"

definition bq_execute_query :: "world \<Rightarrow> bigquery_server \<Rightarrow> jsval \<Rightarrow> jsval comp" where
  "bq_execute_query w s toolArgs =
     (if \<not> bigquery_ready s then throw (new_Error ''BigQuery client not initialized'')
      else execute_query_body w s toolArgs)"

definition bq_get_query_results :: "world \<Rightarrow> bigquery_server \<Rightarrow> jsval \<Rightarrow> jsval comp" where
  "bq_get_query_results w s toolArgs =
     (if \<not> bigquery_ready s then throw (new_Error ''BigQuery client not initialized'')
      else let jobId = get_prop toolArgs ''jobId'';
               maxResultsForJob = default_to (get_prop toolArgs ''maxResults'') (Num 100)
           in and_then
                (await_vendor w (JobById_getQueryResults jobId (Obj [(''maxResults'', maxResultsForJob)])))
                (\<lambda>rows. and_then (lift (js_length rows))
                   (\<lambda>totalRows.
                      ret (text_content (JSON_stringify w
                        (Obj [(''jobId'', jobId), (''rows'', rows), (''totalRows'', totalRows)]))))))"

definition bigquery_tool_switch :: "world \<Rightarrow> bigquery_server \<Rightarrow> jsval \<Rightarrow> jsval \<Rightarrow> jsval comp" where
  "bigquery_tool_switch w s toolName toolArgs =
     (if toolName = Str ''list_datasets'' then bq_list_datasets w s
      else if toolName = Str ''list_tables'' then bq_list_tables w s toolArgs
      else if toolName = Str ''get_table_schema'' then bq_get_table_schema w s toolArgs
      else if toolName = Str ''execute_query'' then bq_execute_query w s toolArgs
      else if toolName = Str ''get_query_results'' then bq_get_query_results w s toolArgs
      else throw (new_Error (''Unknown tool: '' @ ToString toolName)))"

text \<open>The \<open>tools/call\<close> case of the switch on the method.\<close>

definition bigquery_tools_call :: "world \<Rightarrow> bigquery_server \<Rightarrow> jsval \<Rightarrow> jsval comp" where
  "bigquery_tools_call w s request =
     (let toolName = prop_opt (get_prop request ''params'') ''name'';
          toolArgs = js_or (prop_opt (get_prop request ''params'') ''arguments'') (Obj [])
      in try_catch
           (and_then (bigquery_tool_switch w s toolName toolArgs)
              (\<lambda>toolResult. ret (result_envelope toolResult (get_prop request ''id''))))
           (\<lambda>error. ret (error_envelope (- 32000) (errorMessage error) (get_prop request ''id''))))"

definition bigquery_post_mcp ::
  "world \<Rightarrow> bigquery_server \<Rightarrow> jsval \<Rightarrow> http_reply \<times> vendor_call list" where
  "bigquery_post_mcp w s request =
     (case and_then (lift (prop_checked request ''method''))
             (\<lambda>method.
                if method = Str ''initialize''
                then ret (result_envelope (initialize_result ''bigquery-mcp-server'' ''1.0.0'')
                            (get_prop request ''id''))
                else if method = Str ''tools/list''
                then ret (result_envelope (Obj [(''tools'', Arr bigquery_tools)])
                            (get_prop request ''id''))
                else if method = Str ''tools/call'' then bigquery_tools_call w s request
                else ret (error_envelope (- 32601) ''Method not found'' (get_prop request ''id'')))
      of (Inr response, l) \<Rightarrow> (EventMessage response, l)
       | (Inl error, l) \<Rightarrow> (InternalServerError (errorMessage error), l))"

section \<open>Properties\<close>

subsection \<open>Auxiliary facts\<close>

lemmas comp_defs = ret_def throw_def lift_def await_vendor_def and_then_def try_catch_def

lemma split_char_prefix:
  "sep \<notin> set p \<Longrightarrow> split_char sep (p @ sep # v) = p # split_char sep v"
  by (induction p) auto

lemma split_char_head:
  "\<exists>ws. split_char sep v = takeWhile (\<lambda>c. c \<noteq> sep) v # ws"
  by (induction v) (auto split: list.splits)

lemma split_char_second:
  assumes "sep \<notin> set p"
  shows "at_index (split_char sep (p @ sep # v)) 1 = Str (takeWhile (\<lambda>c. c \<noteq> sep) v)"
proof -
  obtain ws where "split_char sep v = takeWhile (\<lambda>c. c \<noteq> sep) v # ws"
    using split_char_head by blast
  then show ?thesis
    using assms by (simp add: split_char_prefix at_index_def)
qed

subsection \<open>Transport selection\<close>

text \<open>
  C10. For every command-line argument vector, \<open>BaseMCPServer.getTransportMode\<close>
  returns \<open>"stdio"\<close> or \<open>"http"\<close> and nothing else, so \<open>BaseMCPServer.run\<close> never
  takes the branch that reports an unknown transport mode and exits. A
  \<open>--transport\<close> value other than \<open>"http"\<close>, given after \<open>=\<close> or as the next
  argument, gives \<open>"stdio"\<close>.
\<close>

theorem C10_transport_mode_total:
  "(getTransportMode argv = ''stdio'' \<or> getTransportMode argv = ''http'')
   \<and> (\<forall>t st. run argv \<noteq> UnknownTransportExit t st)
   \<and> getTransportMode (node # script # (''--transport='' @ v) # rest)
       = (if takeWhile (\<lambda>c. c \<noteq> CHR ''='') v = ''http'' then ''http'' else ''stdio'')
   \<and> getTransportMode (node # script # ''--transport'' # v # rest)
       = (if v = ''http'' then ''http'' else ''stdio'')"
proof -
  have mode: "getTransportMode argv = ''stdio'' \<or> getTransportMode argv = ''http''"
    by (simp add: getTransportMode_def Let_def split: option.split)
  have r: "\<forall>t st. run argv \<noteq> UnknownTransportExit t st"
    using mode by (auto simp: run_def Let_def)
  have c: "getTransportMode (node # script # ''--transport'' # v # rest)
          = (if v = ''http'' then ''http'' else ''stdio'')"
    by (simp add: getTransportMode_def Let_def at_index_def)
  have "at_index (split_char (CHR ''='') (''--transport'' @ CHR ''='' # v)) 1
          = Str (takeWhile (\<lambda>c. c \<noteq> CHR ''='') v)"
    by (rule split_char_second) simp
  then have e: "getTransportMode (node # script # (''--transport='' @ v) # rest)
       = (if takeWhile (\<lambda>c. c \<noteq> CHR ''='') v = ''http'' then ''http'' else ''stdio'')"
    by (simp add: getTransportMode_def Let_def)
  from mode r e c show ?thesis by blast
qed

theorem C10_transport_mode_witness:
  "getTransportMode [''node'', ''server.js'', ''--transport'', ''sse''] = ''stdio''
   \<and> getTransportMode [''node'', ''server.js'', ''--transport=sse''] = ''stdio''
   \<and> run [''node'', ''server.js'', ''--transport=sse''] \<noteq> UnknownTransportExit ''sse'' 1"
  using C10_transport_mode_total [where argv = "[''node'', ''server.js'', ''--transport=sse'']"
          and node = "''node''" and script = "''server.js''" and v = "''sse''" and rest = "[]"]
  by simp

subsection \<open>The HTTP dispatchers\<close>

lemma meta_tool_names:
  "tool_names meta_tools = [''get_account_info'', ''list_campaigns'', ''get_campaign'',
     ''list_adsets'', ''list_ads'', ''get_insights'']"
  by (simp add: tool_names_def meta_tools_def tool_entry_def)

lemma bigquery_tool_names:
  "tool_names bigquery_tools = [''list_datasets'', ''list_tables'', ''get_table_schema'',
     ''execute_query'', ''get_query_results'']"
  by (simp add: tool_names_def bigquery_tools_def tool_entry_def)

lemma dispatch_envelope:
  "try_catch (and_then m (\<lambda>x. ret (f x))) (\<lambda>e. ret (g e)) =
     (case m of (Inl e, l) \<Rightarrow> (Inr (g e), l) | (Inr x, l) \<Rightarrow> (Inr (f x), l))"
  by (simp add: comp_defs split: prod.splits sum.splits)

lemma meta_unknown_tool:
  assumes "toolName \<notin> Str ` set (tool_names meta_tools)"
  shows "meta_tool_switch w s toolName toolArgs
           = throw (new_Error (''Unknown tool: '' @ ToString toolName))"
  using assms by (auto simp: meta_tool_switch_def meta_tool_names)

lemma bigquery_unknown_tool:
  assumes "toolName \<notin> Str ` set (tool_names bigquery_tools)"
  shows "bigquery_tool_switch w s toolName toolArgs
           = throw (new_Error (''Unknown tool: '' @ ToString toolName))"
  using assms by (auto simp: bigquery_tool_switch_def bigquery_tool_names)

lemma method_read:
  "get_prop request ''method'' = Str m \<Longrightarrow> prop_checked request ''method'' = Inr (Str m)"
  by (cases request) (auto simp: prop_checked_def nullish_def)

lemma error_envelope_shape:
  "get_prop (get_prop (error_envelope c m i) ''error'') ''code'' = Num c
   \<and> get_prop (get_prop (error_envelope c m i) ''error'') ''message'' = Str m
   \<and> get_prop (error_envelope c m i) ''id'' = i
   \<and> has_key (error_envelope c m i) ''error''
   \<and> \<not> has_key (error_envelope c m i) ''result''"
  by (simp add: error_envelope_def)

text \<open>
  C1. A \<open>tools/call\<close> request whose tool name is none of the names the server lists
  is answered, by the Meta Ads dispatcher and by the BigQuery dispatcher alike, with
  an envelope that carries an error of code \<open>-32000\<close> (its message names the tool),
  carries the id of the request and has no result. The dispatcher returns this envelope:
  nothing is thrown out of it, the endpoint sends it as its one event, and no vendor call
  has been made.
\<close>

theorem C1_unknown_tool_error:
  assumes "get_prop request ''method'' = Str ''tools/call''"
  shows "(prop_opt (get_prop request ''params'') ''name'' \<notin> Str ` set (tool_names meta_tools) \<longrightarrow>
            (\<exists>response.
               handleToolCall w ms request = (Inr response, [])
               \<and> meta_post_mcp w ms request = (EventMessage response, [])
               \<and> get_prop (get_prop response ''error'') ''code'' = Num (- 32000)
               \<and> get_prop (get_prop response ''error'') ''message''
                    = Str (''Unknown tool: '' @ ToString (prop_opt (get_prop request ''params'') ''name''))
               \<and> get_prop response ''id'' = get_prop request ''id''
               \<and> has_key response ''error'' \<and> \<not> has_key response ''result''))
       \<and> (prop_opt (get_prop request ''params'') ''name'' \<notin> Str ` set (tool_names bigquery_tools) \<longrightarrow>
            (\<exists>response.
               bigquery_tools_call w bs request = (Inr response, [])
               \<and> bigquery_post_mcp w bs request = (EventMessage response, [])
               \<and> get_prop (get_prop response ''error'') ''code'' = Num (- 32000)
               \<and> get_prop (get_prop response ''error'') ''message''
                    = Str (''Unknown tool: '' @ ToString (prop_opt (get_prop request ''params'') ''name''))
               \<and> get_prop response ''id'' = get_prop request ''id''
               \<and> has_key response ''error'' \<and> \<not> has_key response ''result''))"
proof (intro conjI impI)
  let ?name = "prop_opt (get_prop request ''params'') ''name''"
  let ?e = "error_envelope (- 32000) (''Unknown tool: '' @ ToString ?name) (get_prop request ''id'')"
  have m: "prop_checked request ''method'' = Inr (Str ''tools/call'')"
    using assms by (rule method_read)
  {
    assume "?name \<notin> Str ` set (tool_names meta_tools)"
    then have sw: "meta_tool_switch w ms ?name toolArgs
                     = throw (new_Error (''Unknown tool: '' @ ToString ?name))" for toolArgs
      by (rule meta_unknown_tool)
    have h: "handleToolCall w ms request = (Inr ?e, [])"
      by (simp add: handleToolCall_def Let_def dispatch_envelope sw throw_def new_Error_def
            errorMessage_def)
    have p: "meta_post_mcp w ms request = (EventMessage ?e, [])"
      by (simp add: meta_post_mcp_def post_mcp_def m h lift_def and_then_def)
    show "\<exists>response.
               handleToolCall w ms request = (Inr response, [])
               \<and> meta_post_mcp w ms request = (EventMessage response, [])
               \<and> get_prop (get_prop response ''error'') ''code'' = Num (- 32000)
               \<and> get_prop (get_prop response ''error'') ''message''
                    = Str (''Unknown tool: '' @ ToString ?name)
               \<and> get_prop response ''id'' = get_prop request ''id''
               \<and> has_key response ''error'' \<and> \<not> has_key response ''result''"
      using h p error_envelope_shape by blast
  }
  {
    assume "?name \<notin> Str ` set (tool_names bigquery_tools)"
    then have sw: "bigquery_tool_switch w bs ?name toolArgs
                     = throw (new_Error (''Unknown tool: '' @ ToString ?name))" for toolArgs
      by (rule bigquery_unknown_tool)
    have h: "bigquery_tools_call w bs request = (Inr ?e, [])"
      by (simp add: bigquery_tools_call_def Let_def dispatch_envelope sw throw_def new_Error_def
            errorMessage_def)
    have p: "bigquery_post_mcp w bs request = (EventMessage ?e, [])"
      by (simp add: bigquery_post_mcp_def m h lift_def and_then_def)
    show "\<exists>response.
               bigquery_tools_call w bs request = (Inr response, [])
               \<and> bigquery_post_mcp w bs request = (EventMessage response, [])
               \<and> get_prop (get_prop response ''error'') ''code'' = Num (- 32000)
               \<and> get_prop (get_prop response ''error'') ''message''
                    = Str (''Unknown tool: '' @ ToString ?name)
               \<and> get_prop response ''id'' = get_prop request ''id''
               \<and> has_key response ''error'' \<and> \<not> has_key response ''result''"
      using h p error_envelope_shape by blast
  }
qed

theorem C1_unknown_tool_witness:
  "get_prop (Obj [(''jsonrpc'', Str ''2.0''), (''method'', Str ''tools/call''),
           (''params'', Obj [(''name'', Str ''delete_campaign''), (''arguments'', Obj [])]),
           (''id'', Num 7)]) ''method'' = Str ''tools/call''
   \<and> Str ''delete_campaign'' \<notin> Str ` set (tool_names meta_tools)
   \<and> Str ''delete_campaign'' \<notin> Str ` set (tool_names bigquery_tools)
   \<and> (\<exists>response.
         meta_post_mcp \<lparr>vendor = (\<lambda>c. Inr (Arr [])), JSON_stringify = ToString\<rparr>
           \<lparr>api_ready = True, adsConfig = empty_MetaAdsConfig\<rparr>
           (Obj [(''jsonrpc'', Str ''2.0''), (''method'', Str ''tools/call''),
           (''params'', Obj [(''name'', Str ''delete_campaign''), (''arguments'', Obj [])]),
           (''id'', Num 7)])
           = (EventMessage response, [])
         \<and> get_prop (get_prop response ''error'') ''message'' = Str ''Unknown tool: delete_campaign''
         \<and> get_prop response ''id'' = Num 7
         \<and> \<not> has_key response ''result'')
   \<and> (\<exists>response.
         bigquery_post_mcp \<lparr>vendor = (\<lambda>c. Inr (Arr [])), JSON_stringify = ToString\<rparr>
           \<lparr>bigquery_ready = True, location = ''US''\<rparr>
           (Obj [(''jsonrpc'', Str ''2.0''), (''method'', Str ''tools/call''),
           (''params'', Obj [(''name'', Str ''delete_campaign''), (''arguments'', Obj [])]),
           (''id'', Num 7)])
           = (EventMessage response, [])
         \<and> get_prop (get_prop response ''error'') ''code'' = Num (- 32000)
         \<and> get_prop response ''id'' = Num 7
         \<and> \<not> has_key response ''result'')"
  using C1_unknown_tool_error
    [where request = "(Obj [(''jsonrpc'', Str ''2.0''), (''method'', Str ''tools/call''),
           (''params'', Obj [(''name'', Str ''delete_campaign''), (''arguments'', Obj [])]),
           (''id'', Num 7)])"
       and w = "\<lparr>vendor = (\<lambda>c. Inr (Arr [])), JSON_stringify = ToString\<rparr>"
       and ms = "\<lparr>api_ready = True, adsConfig = empty_MetaAdsConfig\<rparr>"
       and bs = "\<lparr>bigquery_ready = True, location = ''US''\<rparr>"]
  by (auto simp: meta_tool_names bigquery_tool_names prop_opt_def nullish_def)

lemma and_then_text:
  assumes "and_then m (\<lambda>x. ret (text_content (f x))) = (Inr y, l)"
  shows "\<exists>t. y = text_content t"
  using assms by (auto simp: comp_defs split: prod.splits sum.splits)

lemma and_then_Inr:
  assumes "and_then m f = (Inr y, l)"
  shows "\<exists>x l1 l2. m = (Inr x, l1) \<and> f x = (Inr y, l2)"
  using assms by (auto simp: comp_defs split: prod.splits sum.splits)

lemma call_get_account_info_text:
  "call_get_account_info w s a = (Inr y, l) \<Longrightarrow> \<exists>t. y = text_content t"
  by (auto simp: call_get_account_info_def Let_def throw_def split: if_splits dest: and_then_text)

lemma call_list_campaigns_text:
  "call_list_campaigns w s a = (Inr y, l) \<Longrightarrow> \<exists>t. y = text_content t"
  by (auto simp: call_list_campaigns_def Let_def throw_def split: if_splits dest: and_then_text)

lemma call_get_campaign_text:
  "call_get_campaign w s a = (Inr y, l) \<Longrightarrow> \<exists>t. y = text_content t"
  by (auto simp: call_get_campaign_def Let_def throw_def split: if_splits dest: and_then_text)

lemma call_list_adsets_text:
  "call_list_adsets w s a = (Inr y, l) \<Longrightarrow> \<exists>t. y = text_content t"
  by (auto simp: call_list_adsets_def Let_def throw_def split: if_splits dest: and_then_text)

lemma call_list_ads_text:
  "call_list_ads w s a = (Inr y, l) \<Longrightarrow> \<exists>t. y = text_content t"
  by (auto simp: call_list_ads_def Let_def throw_def split: if_splits dest: and_then_text)

lemma call_get_insights_text:
  "call_get_insights w s a = (Inr y, l) \<Longrightarrow> \<exists>t. y = text_content t"
  by (auto simp: call_get_insights_def Let_def throw_def ret_def split: if_splits
        dest!: and_then_Inr)

lemma meta_tool_switch_text:
  "meta_tool_switch w s n a = (Inr y, l) \<Longrightarrow> \<exists>t. y = text_content t"
  by (auto simp: meta_tool_switch_def throw_def split: if_splits
        dest: call_get_account_info_text call_list_campaigns_text call_get_campaign_text
          call_list_adsets_text call_list_ads_text call_get_insights_text)

lemma handleToolCall_response:
  "\<exists>response l. handleToolCall w s request = (Inr response, l)
      \<and> get_prop response ''id'' = get_prop request ''id''
      \<and> ((has_key response ''result'' \<and> get_prop response ''result'' \<noteq> Undefined
            \<and> \<not> has_key response ''error'')
          \<or> (has_key response ''error'' \<and> get_prop response ''error'' \<noteq> Undefined
            \<and> \<not> has_key response ''result''))"
proof -
  let ?m = "meta_tool_switch w s (prop_opt (get_prop request ''params'') ''name'')
              (js_or (prop_opt (get_prop request ''params'') ''arguments'') (Obj []))"
  obtain r l where m: "?m = (r, l)" by (cases ?m)
  show ?thesis
  proof (cases r)
    case (Inl e)
    then show ?thesis using m
      by (simp add: handleToolCall_def Let_def dispatch_envelope error_envelope_def)
  next
    case (Inr y)
    then obtain t where "y = text_content t" using m meta_tool_switch_text by blast
    then show ?thesis using m Inr
      by (simp add: handleToolCall_def Let_def dispatch_envelope result_envelope_def
            text_content_def)
  qed
qed

lemma meta_post_mcp_response:
  assumes "\<not> nullish request"
  shows "\<exists>response l.
           meta_post_mcp w s request = (EventMessage response, l)
           \<and> get_prop response ''id'' = get_prop request ''id''
           \<and> ((has_key response ''result'' \<and> get_prop response ''result'' \<noteq> Undefined
                 \<and> \<not> has_key response ''error'')
               \<or> (has_key response ''error'' \<and> get_prop response ''error'' \<noteq> Undefined
                 \<and> \<not> has_key response ''result''))"
proof -
  have m: "prop_checked request ''method'' = Inr (get_prop request ''method'')"
    using assms by (simp add: prop_checked_def)
  obtain response l where h: "handleToolCall w s request = (Inr response, l)"
      and wf: "get_prop response ''id'' = get_prop request ''id''"
        "(has_key response ''result'' \<and> get_prop response ''result'' \<noteq> Undefined
            \<and> \<not> has_key response ''error'')
          \<or> (has_key response ''error'' \<and> get_prop response ''error'' \<noteq> Undefined
            \<and> \<not> has_key response ''result'')"
    using handleToolCall_response by blast
  consider (init) "get_prop request ''method'' = Str ''initialize''"
    | (list) "get_prop request ''method'' = Str ''tools/list''"
    | (call) "get_prop request ''method'' = Str ''tools/call''"
    | (other) "get_prop request ''method'' \<noteq> Str ''initialize''"
        "get_prop request ''method'' \<noteq> Str ''tools/list''"
        "get_prop request ''method'' \<noteq> Str ''tools/call''"
    by blast
  then show ?thesis
  proof cases
    case init
    then show ?thesis
      by (simp add: meta_post_mcp_def post_mcp_def m comp_defs result_envelope_def
            initialize_result_def)
  next
    case list
    then show ?thesis
      by (simp add: meta_post_mcp_def post_mcp_def m comp_defs handleToolsList_def)
  next
    case call
    then have "meta_post_mcp w s request = (EventMessage response, l)"
      by (simp add: meta_post_mcp_def post_mcp_def m h lift_def and_then_def)
    then show ?thesis using wf by blast
  next
    case other
    then show ?thesis
      by (simp add: meta_post_mcp_def post_mcp_def m comp_defs error_envelope_def)
  qed
qed

lemma bq_list_datasets_text:
  "bq_list_datasets w s = (Inr y, l) \<Longrightarrow> \<exists>t. y = text_content t"
  by (auto simp: bq_list_datasets_def throw_def ret_def split: if_splits dest!: and_then_Inr)

lemma bq_list_tables_text:
  "bq_list_tables w s a = (Inr y, l) \<Longrightarrow> \<exists>t. y = text_content t"
  by (auto simp: bq_list_tables_def throw_def ret_def split: if_splits dest!: and_then_Inr)

lemma bq_get_table_schema_text:
  "bq_get_table_schema w s a = (Inr y, l) \<Longrightarrow> \<exists>t. y = text_content t"
  by (auto simp: bq_get_table_schema_def Let_def throw_def ret_def split: if_splits dest!: and_then_Inr)

lemma execute_query_body_text:
  "execute_query_body w s a = (Inr y, l) \<Longrightarrow> \<exists>t. y = text_content t"
  by (auto simp: execute_query_body_def Let_def throw_def ret_def split: if_splits dest!: and_then_Inr)

lemma bq_get_query_results_text:
  "bq_get_query_results w s a = (Inr y, l) \<Longrightarrow> \<exists>t. y = text_content t"
  by (auto simp: bq_get_query_results_def Let_def throw_def ret_def split: if_splits dest!: and_then_Inr)

lemma bigquery_tool_switch_text:
  "bigquery_tool_switch w s n a = (Inr y, l) \<Longrightarrow> \<exists>t. y = text_content t"
  by (auto simp: bigquery_tool_switch_def bq_execute_query_def throw_def split: if_splits
        dest: bq_list_datasets_text bq_list_tables_text bq_get_table_schema_text
          execute_query_body_text bq_get_query_results_text)

lemma bigquery_tools_call_response:
  "\<exists>response l. bigquery_tools_call w s request = (Inr response, l)
      \<and> get_prop response ''id'' = get_prop request ''id''
      \<and> ((has_key response ''result'' \<and> get_prop response ''result'' \<noteq> Undefined
            \<and> \<not> has_key response ''error'')
          \<or> (has_key response ''error'' \<and> get_prop response ''error'' \<noteq> Undefined
            \<and> \<not> has_key response ''result''))"
proof -
  let ?m = "bigquery_tool_switch w s (prop_opt (get_prop request ''params'') ''name'')
              (js_or (prop_opt (get_prop request ''params'') ''arguments'') (Obj []))"
  obtain r l where m: "?m = (r, l)" by (cases ?m)
  show ?thesis
  proof (cases r)
    case (Inl e)
    then show ?thesis using m
      by (simp add: bigquery_tools_call_def Let_def dispatch_envelope error_envelope_def)
  next
    case (Inr y)
    then obtain t where "y = text_content t" using m bigquery_tool_switch_text by blast
    then show ?thesis using m Inr
      by (simp add: bigquery_tools_call_def Let_def dispatch_envelope result_envelope_def
            text_content_def)
  qed
qed

lemma bigquery_post_mcp_response:
  assumes "\<not> nullish request"
  shows "\<exists>response l.
           bigquery_post_mcp w s request = (EventMessage response, l)
           \<and> get_prop response ''id'' = get_prop request ''id''
           \<and> ((has_key response ''result'' \<and> get_prop response ''result'' \<noteq> Undefined
                 \<and> \<not> has_key response ''error'')
               \<or> (has_key response ''error'' \<and> get_prop response ''error'' \<noteq> Undefined
                 \<and> \<not> has_key response ''result''))"
proof -
  have m: "prop_checked request ''method'' = Inr (get_prop request ''method'')"
    using assms by (simp add: prop_checked_def)
  obtain response l where h: "bigquery_tools_call w s request = (Inr response, l)"
      and wf: "get_prop response ''id'' = get_prop request ''id''"
        "(has_key response ''result'' \<and> get_prop response ''result'' \<noteq> Undefined
            \<and> \<not> has_key response ''error'')
          \<or> (has_key response ''error'' \<and> get_prop response ''error'' \<noteq> Undefined
            \<and> \<not> has_key response ''result'')"
    using bigquery_tools_call_response by blast
  consider (init) "get_prop request ''method'' = Str ''initialize''"
    | (list) "get_prop request ''method'' = Str ''tools/list''"
    | (call) "get_prop request ''method'' = Str ''tools/call''"
    | (other) "get_prop request ''method'' \<noteq> Str ''initialize''"
        "get_prop request ''method'' \<noteq> Str ''tools/list''"
        "get_prop request ''method'' \<noteq> Str ''tools/call''"
    by blast
  then show ?thesis
  proof cases
    case init
    then show ?thesis
      by (simp add: bigquery_post_mcp_def m comp_defs result_envelope_def initialize_result_def)
  next
    case list
    then show ?thesis
      by (simp add: bigquery_post_mcp_def m comp_defs result_envelope_def)
  next
    case call
    then have "bigquery_post_mcp w s request = (EventMessage response, l)"
      by (simp add: bigquery_post_mcp_def m h lift_def and_then_def)
    then show ?thesis using wf by blast
  next
    case other
    then show ?thesis
      by (simp add: bigquery_post_mcp_def m comp_defs error_envelope_def)
  qed
qed

text \<open>
  C3. Whatever the method of the request (\<open>initialize\<close>, \<open>tools/list\<close>,
  \<open>tools/call\<close> or anything else), the endpoint sends one response envelope; its id
  is the id of the request, and it has either a result and no error, or an error and no
  result. This holds for the endpoint of the base server with the Meta Ads dispatcher and
  for the endpoint of the BigQuery server. The request is the parsed body, an object.
\<close>

theorem C3_one_envelope_per_request:
  assumes "\<not> nullish request"
  shows "(\<exists>response l.
            meta_post_mcp w ms request = (EventMessage response, l)
            \<and> get_prop response ''id'' = get_prop request ''id''
            \<and> ((has_key response ''result'' \<and> get_prop response ''result'' \<noteq> Undefined
                  \<and> \<not> has_key response ''error'')
                \<or> (has_key response ''error'' \<and> get_prop response ''error'' \<noteq> Undefined
                  \<and> \<not> has_key response ''result'')))
       \<and> (\<exists>response l.
            bigquery_post_mcp w bs request = (EventMessage response, l)
            \<and> get_prop response ''id'' = get_prop request ''id''
            \<and> ((has_key response ''result'' \<and> get_prop response ''result'' \<noteq> Undefined
                  \<and> \<not> has_key response ''error'')
                \<or> (has_key response ''error'' \<and> get_prop response ''error'' \<noteq> Undefined
                  \<and> \<not> has_key response ''result'')))"
  using meta_post_mcp_response [OF assms] bigquery_post_mcp_response [OF assms] by blast

theorem C3_one_envelope_witness:
  "\<not> nullish (Obj [(''jsonrpc'', Str ''2.0''), (''method'', Str ''tools/call''),
           (''params'', Obj [(''name'', Str ''list_campaigns'')]), (''id'', Str ''r-1'')])
   \<and> (\<exists>response l.
         meta_post_mcp \<lparr>vendor = (\<lambda>c. Inr (Arr [])), JSON_stringify = ToString\<rparr>
           \<lparr>api_ready = True, adsConfig = empty_MetaAdsConfig\<lparr>accountId := Some ''42''\<rparr>\<rparr>
           (Obj [(''jsonrpc'', Str ''2.0''), (''method'', Str ''tools/call''),
           (''params'', Obj [(''name'', Str ''list_campaigns'')]), (''id'', Str ''r-1'')])
           = (EventMessage response, l)
         \<and> get_prop response ''id'' = Str ''r-1''
         \<and> (has_key response ''result'' \<noteq> has_key response ''error''))
   \<and> (\<exists>response l.
         bigquery_post_mcp \<lparr>vendor = (\<lambda>c. Inr (Arr [])), JSON_stringify = ToString\<rparr>
           \<lparr>bigquery_ready = True, location = ''US''\<rparr>
           (Obj [(''jsonrpc'', Str ''2.0''), (''method'', Str ''tools/call''),
           (''params'', Obj [(''name'', Str ''list_campaigns'')]), (''id'', Str ''r-1'')])
           = (EventMessage response, l)
         \<and> get_prop response ''id'' = Str ''r-1''
         \<and> (has_key response ''result'' \<noteq> has_key response ''error''))"
  using C3_one_envelope_per_request
    [where request = "(Obj [(''jsonrpc'', Str ''2.0''), (''method'', Str ''tools/call''),
           (''params'', Obj [(''name'', Str ''list_campaigns'')]), (''id'', Str ''r-1'')])"
       and w = "\<lparr>vendor = (\<lambda>c. Inr (Arr [])), JSON_stringify = ToString\<rparr>"
       and ms = "\<lparr>api_ready = True, adsConfig = empty_MetaAdsConfig\<lparr>accountId := Some ''42''\<rparr>\<rparr>"
       and bs = "\<lparr>bigquery_ready = True, location = ''US''\<rparr>"]
  by (auto simp: nullish_def)

subsection \<open>Defaults and parameters\<close>

lemma show_int_25: "show_int 25 = ''25''"
  by code_simp

lemma show_int_50: "show_int 50 = ''50''"
  by code_simp

lemma show_int_100: "show_int 100 = ''100''"
  by code_simp

lemma list_params_limit_omitted:
  "get_prop args ''limit'' = Undefined \<Longrightarrow> get_prop (list_params args) ''limit'' = Num 25"
  by (simp add: list_params_def js_or_def)

lemma list_params_limit_zero:
  "get_prop args ''limit'' = Num 0 \<Longrightarrow> get_prop (list_params args) ''limit'' = Num 25"
  by (simp add: list_params_def js_or_def)

lemma try_catch_log:
  "snd (try_catch (and_then (await_vendor w c) (\<lambda>x. ret (f x))) (\<lambda>e. ret (g e))) = [c]"
  by (simp add: comp_defs split: prod.splits sum.splits)

lemma execute_query_body_log:
  assumes "get_prop args ''maxResults'' = Undefined"
  shows "\<exists>rest. snd (execute_query_body w bs args)
            = BigQuery_createQueryJob
                (Obj [(''query'', get_prop args ''query''), (''location'', Str (location bs)),
                      (''dryRun'', default_to (get_prop args ''dryRun'') (Bool False)),
                      (''maxResults'', Num 100)]) # rest
          \<and> (rest = [] \<or> (\<exists>job. rest = [Job_getMetadata job])
               \<or> (\<exists>job. rest = [Job_getQueryResults job (Obj [(''maxResults'', Num 100)])]))"
  using assms
  by (auto simp: execute_query_body_def Let_def default_to_def comp_defs await_method_def
        split: prod.splits sum.splits)

lemma try_catch_ret_log:
  "snd (try_catch m (\<lambda>e. ret (g e))) = snd m"
  by (simp add: comp_defs split: prod.splits sum.splits)

text \<open>
  C4. When the caller omits the bound, the vendor is asked for the documented default:
  the Meta Ads \<open>list_campaigns\<close> tool (registered handler and HTTP dispatcher) passes
  \<open>limit = 25\<close>, the Google Ads \<open>list_campaigns\<close> tool sends a query ending in
  \<open>LIMIT 50\<close>, and the BigQuery \<open>execute_query\<close> tool passes \<open>maxResults = 100\<close> to
  the query job and to the read of its results.
\<close>

theorem C4_default_limits:
  "(get_prop args ''limit'' = Undefined \<and> api_ready ms
      \<and> truthy (js_or (get_prop args ''accountId'') (opt_val (accountId (adsConfig ms)))) \<longrightarrow>
      (\<exists>account params.
         snd (meta_list_campaigns_tool w ms args)
           = [AdAccount_getCampaigns account campaign_list_fields params]
         \<and> snd (call_list_campaigns w ms args)
           = [AdAccount_getCampaigns account campaign_list_fields params]
         \<and> get_prop params ''limit'' = Num 25))
   \<and> (get_prop args ''limit'' = Undefined \<and> googleAds_ready gs
      \<and> truthy (js_or (get_prop args ''customerId'') (opt_val (customerId (google_config gs)))) \<longrightarrow>
      (\<exists>customer token.
         snd (google_list_campaigns_tool w gs args)
           = [Customer_query customer token (list_campaigns_query (Num 50))])
      \<and> str_includes (list_campaigns_query (Num 50)) (''LIMIT 50'' @ newline))
   \<and> (get_prop args ''maxResults'' = Undefined \<and> bigquery_ready bs \<longrightarrow>
      (\<exists>rest. snd (execute_query_tool w bs args)
            = BigQuery_createQueryJob
                (Obj [(''query'', get_prop args ''query''), (''location'', Str (location bs)),
                      (''dryRun'', default_to (get_prop args ''dryRun'') (Bool False)),
                      (''maxResults'', Num 100)]) # rest
          \<and> (rest = [] \<or> (\<exists>job. rest = [Job_getMetadata job])
               \<or> (\<exists>job. rest = [Job_getQueryResults job (Obj [(''maxResults'', Num 100)])]))))"
proof (intro conjI impI)
  assume a: "get_prop args ''limit'' = Undefined \<and> api_ready ms
      \<and> truthy (js_or (get_prop args ''accountId'') (opt_val (accountId (adsConfig ms))))"
  let ?acc = "''act_'' @ ToString (js_or (get_prop args ''accountId'') (opt_val (accountId (adsConfig ms))))"
  have 1: "snd (meta_list_campaigns_tool w ms args)
             = [AdAccount_getCampaigns ?acc campaign_list_fields (list_params args)]"
    using a by (simp add: meta_list_campaigns_tool_def Let_def try_catch_log)
  have 2: "snd (call_list_campaigns w ms args)
             = [AdAccount_getCampaigns ?acc campaign_list_fields (list_params args)]"
    using a by (simp add: call_list_campaigns_def Let_def comp_defs split: prod.splits sum.splits)
  show "\<exists>account params.
         snd (meta_list_campaigns_tool w ms args)
           = [AdAccount_getCampaigns account campaign_list_fields params]
         \<and> snd (call_list_campaigns w ms args)
           = [AdAccount_getCampaigns account campaign_list_fields params]
         \<and> get_prop params ''limit'' = Num 25"
    using 1 2 a list_params_limit_omitted by blast
next
  assume a: "get_prop args ''limit'' = Undefined \<and> googleAds_ready gs
      \<and> truthy (js_or (get_prop args ''customerId'') (opt_val (customerId (google_config gs))))"
  have "snd (google_list_campaigns_tool w gs args)
          = [Customer_query (js_or (get_prop args ''customerId'') (opt_val (customerId (google_config gs))))
               (opt_val (refreshToken (google_config gs))) (list_campaigns_query (Num 50))]"
    using a
    by (simp add: google_list_campaigns_tool_def Let_def js_or_def format_catch_def comp_defs
          split: prod.splits sum.splits)
  then show "\<exists>customer token.
         snd (google_list_campaigns_tool w gs args)
           = [Customer_query customer token (list_campaigns_query (Num 50))]"
    by blast
next
  show "str_includes (list_campaigns_query (Num 50)) (''LIMIT 50'' @ newline)"
    by (simp add: list_campaigns_query_def show_int_50 newline_def)
next
  assume a: "get_prop args ''maxResults'' = Undefined \<and> bigquery_ready bs"
  then have "snd (execute_query_tool w bs args) = snd (execute_query_body w bs args)"
    by (simp add: execute_query_tool_def try_catch_ret_log)
  then show "\<exists>rest. snd (execute_query_tool w bs args)
            = BigQuery_createQueryJob
                (Obj [(''query'', get_prop args ''query''), (''location'', Str (location bs)),
                      (''dryRun'', default_to (get_prop args ''dryRun'') (Bool False)),
                      (''maxResults'', Num 100)]) # rest
          \<and> (rest = [] \<or> (\<exists>job. rest = [Job_getMetadata job])
               \<or> (\<exists>job. rest = [Job_getQueryResults job (Obj [(''maxResults'', Num 100)])]))"
    using a execute_query_body_log by simp
qed

theorem C4_default_limits_witness:
  "get_prop (Obj [(''accountId'', Str ''99''), (''customerId'', Str ''123''),
           (''query'', Str ''SELECT 1'')]) ''limit'' = Undefined
   \<and> get_prop (Obj [(''accountId'', Str ''99''), (''customerId'', Str ''123''),
           (''query'', Str ''SELECT 1'')]) ''maxResults'' = Undefined
   \<and> (\<exists>account params.
         snd (meta_list_campaigns_tool \<lparr>vendor = (\<lambda>c. Inr (Arr [])), JSON_stringify = ToString\<rparr>
                \<lparr>api_ready = True, adsConfig = empty_MetaAdsConfig\<rparr>
                (Obj [(''accountId'', Str ''99''), (''customerId'', Str ''123''),
           (''query'', Str ''SELECT 1'')]))
           = [AdAccount_getCampaigns account campaign_list_fields params]
         \<and> get_prop params ''limit'' = Num 25)
   \<and> (\<exists>customer token.
         snd (google_list_campaigns_tool \<lparr>vendor = (\<lambda>c. Inr (Arr [])), JSON_stringify = ToString\<rparr>
                \<lparr>googleAds_ready = True,
          google_config = \<lparr>customerId = Some ''123'', developerToken = Some ''d'', clientId = Some ''c'',
                           clientSecret = Some ''s'', refreshToken = Some ''tok''\<rparr>\<rparr>
                (Obj [(''accountId'', Str ''99''), (''customerId'', Str ''123''),
           (''query'', Str ''SELECT 1'')]))
           = [Customer_query customer token (list_campaigns_query (Num 50))])
   \<and> (\<exists>rest.
         snd (execute_query_tool \<lparr>vendor = (\<lambda>c. Inr (Arr [])), JSON_stringify = ToString\<rparr>
                \<lparr>bigquery_ready = True, location = ''US''\<rparr>
                (Obj [(''accountId'', Str ''99''), (''customerId'', Str ''123''),
           (''query'', Str ''SELECT 1'')]))
           = BigQuery_createQueryJob
               (Obj [(''query'', Str ''SELECT 1''), (''location'', Str ''US''),
                     (''dryRun'', Bool False), (''maxResults'', Num 100)]) # rest)"
  using C4_default_limits
    [where args = "(Obj [(''accountId'', Str ''99''), (''customerId'', Str ''123''),
           (''query'', Str ''SELECT 1'')])"
       and ms = "\<lparr>api_ready = True, adsConfig = empty_MetaAdsConfig\<rparr>"
       and w = "\<lparr>vendor = (\<lambda>c. Inr (Arr [])), JSON_stringify = ToString\<rparr>"
       and gs = "\<lparr>googleAds_ready = True,
          google_config = \<lparr>customerId = Some ''123'', developerToken = Some ''d'', clientId = Some ''c'',
                           clientSecret = Some ''s'', refreshToken = Some ''tok''\<rparr>\<rparr>"
       and bs = "\<lparr>bigquery_ready = True, location = ''US''\<rparr>"]
  by (auto simp: js_or_def default_to_def)

lemma and_then_vendor_log:
  "snd (and_then (await_vendor w c) (\<lambda>x. ret (f x))) = [c]"
  by (simp add: comp_defs split: prod.splits sum.splits)

lemma insight_log:
  assumes "insight_object t = ret kind"
  shows "snd (and_then (insight_object t)
                (\<lambda>kind. and_then (await_vendor w (c kind)) (\<lambda>x. ret (f x)))) = [c kind]"
  using assms by (simp add: comp_defs split: prod.splits sum.splits)

text \<open>
  C5. The date parameters of \<open>get_insights\<close>, in the registered handler and in the
  HTTP dispatcher. A supplied preset (a non-empty string, as every declared preset is)
  is forwarded as \<open>date_preset\<close>, whether or not a time range comes with it; with no
  preset, a supplied time range (an object) is forwarded as \<open>time_range\<close>; with
  neither, \<open>date_preset\<close> is \<open>"lifetime"\<close>. The parameters always hold exactly one
  of the two keys, and the vendor is called with them whenever the client is set and the
  object type is one of the three known ones: supplying both is not an error.
\<close>

theorem C5_insight_date_parameters:
  "(get_prop args ''datePreset'' = Str preset \<and> preset \<noteq> [] \<longrightarrow>
      insight_params args = Obj [(''date_preset'', Str preset)])
   \<and> (get_prop args ''datePreset'' = Undefined \<and> get_prop args ''timeRange'' = Obj since_until \<longrightarrow>
      insight_params args = Obj [(''time_range'', Obj since_until)])
   \<and> (get_prop args ''datePreset'' = Undefined \<and> get_prop args ''timeRange'' = Undefined \<longrightarrow>
      insight_params args = Obj [(''date_preset'', Str ''lifetime'')])
   \<and> (has_key (insight_params args) ''date_preset'' \<noteq> has_key (insight_params args) ''time_range'')
   \<and> (api_ready ms \<and> insight_object (get_prop args ''objectType'') = ret kind \<longrightarrow>
        snd (meta_get_insights_tool w ms args)
          = [Object_getInsights kind (get_prop args ''objectId'')
               (js_or (get_prop args ''metrics'') defaultMetrics) (insight_params args)]
        \<and> snd (call_get_insights w ms args)
          = [Object_getInsights kind (get_prop args ''objectId'')
               (js_or (get_prop args ''metrics'') defaultMetrics) (insight_params args)])
   \<and> [] \<notin> set datePreset_values"
proof (intro conjI impI)
  show "has_key (insight_params args) ''date_preset'' \<noteq> has_key (insight_params args) ''time_range''"
    by (simp add: insight_params_def)
next
  assume a: "api_ready ms \<and> insight_object (get_prop args ''objectType'') = ret kind"
  show "snd (meta_get_insights_tool w ms args)
          = [Object_getInsights kind (get_prop args ''objectId'')
               (js_or (get_prop args ''metrics'') defaultMetrics) (insight_params args)]"
  proof -
    have "snd (meta_get_insights_tool w ms args) = snd (call_get_insights w ms args)"
      using a by (simp add: meta_get_insights_tool_def call_get_insights_def try_catch_ret_log)
    also have "\<dots> = [Object_getInsights kind (get_prop args ''objectId'')
               (js_or (get_prop args ''metrics'') defaultMetrics) (insight_params args)]"
      using a by (simp add: call_get_insights_def comp_defs split: sum.splits)
    finally show ?thesis .
  qed
  show "snd (call_get_insights w ms args)
          = [Object_getInsights kind (get_prop args ''objectId'')
               (js_or (get_prop args ''metrics'') defaultMetrics) (insight_params args)]"
    using a by (simp add: call_get_insights_def comp_defs split: sum.splits)
qed (simp_all add: insight_params_def datePreset_values_def)


theorem C5_insight_date_parameters_witness:
  "get_prop (Obj [(''objectId'', Str ''c1''), (''objectType'', Str ''campaign''),
           (''datePreset'', Str ''last_week''),
           (''timeRange'', Obj [(''since'', Str ''2024-01-01''), (''until'', Str ''2024-01-31'')])]) ''datePreset'' = Str ''last_week''
   \<and> ''last_week'' \<noteq> []
   \<and> api_ready \<lparr>api_ready = True, adsConfig = empty_MetaAdsConfig\<rparr>
   \<and> insight_object (Str ''campaign'') = ret CampaignObject
   \<and> snd (call_get_insights \<lparr>vendor = (\<lambda>c. Inr (Arr [])), JSON_stringify = ToString\<rparr>
            \<lparr>api_ready = True, adsConfig = empty_MetaAdsConfig\<rparr>
            (Obj [(''objectId'', Str ''c1''), (''objectType'', Str ''campaign''),
           (''datePreset'', Str ''last_week''),
           (''timeRange'', Obj [(''since'', Str ''2024-01-01''), (''until'', Str ''2024-01-31'')])]))
       = [Object_getInsights CampaignObject (Str ''c1'') defaultMetrics
            (Obj [(''date_preset'', Str ''last_week'')])]
   \<and> insight_params (Obj [(''objectId'', Str ''c1''), (''objectType'', Str ''campaign''),
           (''timeRange'', Obj [(''since'', Str ''2024-01-01''), (''until'', Str ''2024-01-31'')])])
       = Obj [(''time_range'', Obj [(''since'', Str ''2024-01-01''), (''until'', Str ''2024-01-31'')])]
   \<and> insight_params (Obj [(''objectId'', Str ''c1''), (''objectType'', Str ''campaign'')])
       = Obj [(''date_preset'', Str ''lifetime'')]"
  using C5_insight_date_parameters
      [where args = "(Obj [(''objectId'', Str ''c1''), (''objectType'', Str ''campaign''),
           (''datePreset'', Str ''last_week''),
           (''timeRange'', Obj [(''since'', Str ''2024-01-01''), (''until'', Str ''2024-01-31'')])])"
         and preset = "''last_week''"
         and ms = "\<lparr>api_ready = True, adsConfig = empty_MetaAdsConfig\<rparr>"
         and kind = CampaignObject
         and w = "\<lparr>vendor = (\<lambda>c. Inr (Arr [])), JSON_stringify = ToString\<rparr>"]
    C5_insight_date_parameters
      [where args = "(Obj [(''objectId'', Str ''c1''), (''objectType'', Str ''campaign''),
           (''timeRange'', Obj [(''since'', Str ''2024-01-01''), (''until'', Str ''2024-01-31'')])])"
         and since_until = "[(''since'', Str ''2024-01-01''), (''until'', Str ''2024-01-31'')]"]
    C5_insight_date_parameters
      [where args = "(Obj [(''objectId'', Str ''c1''), (''objectType'', Str ''campaign'')])"]
  by (simp add: insight_object_def js_or_def)


subsection \<open>Error formatting\<close>

lemma map_throwing_all:
  assumes "\<And>x. x \<in> set xs \<Longrightarrow> f x = Inr (g x)"
  shows "map_throwing f xs = Inr (map g xs)"
  using assms by (induction xs) auto

lemma js_or_not_nullish:
  "truthy d \<Longrightarrow> js_or v d \<noteq> Undefined \<and> js_or v d \<noteq> Null"
  by (cases v) (auto simp: js_or_def)

lemma formatError_sub_errors:
  assumes "\<not> instanceof_Error e" and "get_prop e ''errors'' = Arr subs"
    and "\<forall>x \<in> set subs. \<not> nullish x"
  shows "formatError e
           = Inr (Str (join ''; ''
               (map (\<lambda>x. ToString (js_or (get_prop x ''message'') (Str ''Unknown error''))) subs)))"
proof -
  have obj: "truthy e \<and> typeof_object e"
    using assms(1,2) by (cases e) auto
  have "map_throwing
          (\<lambda>x. case prop_checked x ''message'' of
                  Inl t \<Rightarrow> Inl t
                | Inr m \<Rightarrow> Inr (js_or m (Str ''Unknown error''))) subs
        = Inr (map (\<lambda>x. js_or (get_prop x ''message'') (Str ''Unknown error'')) subs)"
    using assms(3) by (intro map_throwing_all) (simp add: prop_checked_def)
  moreover have "js_join ''; '' (map (\<lambda>x. js_or (get_prop x ''message'') (Str ''Unknown error'')) subs)
        = join ''; '' (map (\<lambda>x. ToString (js_or (get_prop x ''message'') (Str ''Unknown error''))) subs)"
    by (simp add: js_join_def comp_def js_or_not_nullish)
  ultimately show ?thesis
    using assms(1,2) obj by (simp add: formatError_def)
qed

text \<open>
  C7, amended. \<open>formatError\<close> returns the message of an \<open>Error\<close> instance. For any
  other value that carries an \<open>errors\<close> array of sub-errors (none of them
  \<open>undefined\<close> or \<open>null\<close>), it returns their messages joined with \<open>"; "\<close>, with
  \<open>"Unknown error"\<close> for a sub-error whose message is missing or falsy. Otherwise,
  when the value carries a truthy \<open>message\<close>, it returns that message; and only
  otherwise the string form of the value.
\<close>

theorem C7_formatError_cases:
  "formatError (ErrorInst n m) = Inr (Str m)
   \<and> (\<not> instanceof_Error e \<and> get_prop e ''errors'' = Arr subs \<and> (\<forall>x \<in> set subs. \<not> nullish x) \<longrightarrow>
        formatError e
          = Inr (Str (join ''; ''
              (map (\<lambda>x. ToString (js_or (get_prop x ''message'') (Str ''Unknown error''))) subs))))
   \<and> (\<not> instanceof_Error e \<and> \<not> isArray (get_prop e ''errors'') \<and> truthy (get_prop e ''message'') \<longrightarrow>
        formatError e = Inr (get_prop e ''message''))
   \<and> (\<not> instanceof_Error e \<and> \<not> isArray (get_prop e ''errors'') \<and> \<not> truthy (get_prop e ''message'') \<longrightarrow>
        formatError e = Inr (Str (ToString e)))"
proof (intro conjI impI)
  show "formatError (ErrorInst n m) = Inr (Str m)"
    by (simp add: formatError_def)
next
  assume "\<not> instanceof_Error e \<and> get_prop e ''errors'' = Arr subs \<and> (\<forall>x \<in> set subs. \<not> nullish x)"
  then show "formatError e
          = Inr (Str (join ''; ''
              (map (\<lambda>x. ToString (js_or (get_prop x ''message'') (Str ''Unknown error''))) subs)))"
    using formatError_sub_errors by blast
next
  assume "\<not> instanceof_Error e \<and> \<not> isArray (get_prop e ''errors'') \<and> truthy (get_prop e ''message'')"
  then show "formatError e = Inr (get_prop e ''message'')"
    by (cases e) (auto simp: formatError_def)
next
  assume "\<not> instanceof_Error e \<and> \<not> isArray (get_prop e ''errors'') \<and> \<not> truthy (get_prop e ''message'')"
  then show "formatError e = Inr (Str (ToString e))"
    by (cases e) (auto simp: formatError_def)
qed

text \<open>
  C7 as stated fails on a plain object with a message: it is no \<open>Error\<close> instance
  and has no \<open>errors\<close> array, yet the result is its message and not its string form.
\<close>

theorem C7_message_counterexample:
  "\<not> instanceof_Error (Obj [(''message'', Str ''quota exceeded'')])
   \<and> \<not> isArray (get_prop (Obj [(''message'', Str ''quota exceeded'')]) ''errors'')
   \<and> formatError (Obj [(''message'', Str ''quota exceeded'')]) = Inr (Str ''quota exceeded'')
   \<and> ToString (Obj [(''message'', Str ''quota exceeded'')]) = ''[object Object]''
   \<and> formatError (Obj [(''message'', Str ''quota exceeded'')])
       \<noteq> Inr (Str (ToString (Obj [(''message'', Str ''quota exceeded'')])))"
  by (simp add: formatError_def)

theorem C7_formatError_witness:
  "formatError (Obj [(''errors'', Arr [Obj [(''message'', Str ''invalid customer'')], Obj []])])
     = Inr (Str ''invalid customer; Unknown error'')
   \<and> formatError (Obj [(''message'', Str ''quota exceeded'')]) = Inr (Str ''quota exceeded'')
   \<and> formatError (Str ''socket hang up'') = Inr (Str ''socket hang up'')"
  using C7_formatError_cases
      [of _ _ "Obj [(''errors'', Arr [Obj [(''message'', Str ''invalid customer'')], Obj []])]"
          "[Obj [(''message'', Str ''invalid customer'')], Obj []]"]
    C7_formatError_cases [of _ _ "Obj [(''message'', Str ''quota exceeded'')]"]
    C7_formatError_cases [of _ _ "Str ''socket hang up''"]
  by (simp add: nullish_def js_or_def)

subsection \<open>Configuration at start-up\<close>

lemma startsWith_iff: "startsWith s t \<longleftrightarrow> (\<exists>q. s = t @ q)"
  by (induction s t rule: startsWith.induct) auto

lemma str_includes_iff: "str_includes s t \<longleftrightarrow> (\<exists>p q. s = p @ t @ q)"
proof (induction s)
  case Nil
  then show ?case by auto
next
  case (Cons c cs)
  show ?case
  proof
    assume "str_includes (c # cs) t"
    then consider "startsWith (c # cs) t" | "str_includes cs t" by auto
    then show "\<exists>p q. c # cs = p @ t @ q"
    proof cases
      case 1
      then obtain q where "c # cs = t @ q" using startsWith_iff by blast
      then have "c # cs = [] @ t @ q" by simp
      then show ?thesis by blast
    next
      case 2
      then obtain p q where "cs = p @ t @ q" using Cons.IH by blast
      then have "c # cs = (c # p) @ t @ q" by simp
      then show ?thesis by blast
    qed
  next
    assume "\<exists>p q. c # cs = p @ t @ q"
    then obtain p q where pq: "c # cs = p @ t @ q" by blast
    show "str_includes (c # cs) t"
    proof (cases p)
      case Nil
      then have "startsWith (c # cs) t" using pq startsWith_iff by auto
      then show ?thesis by simp
    next
      case (Cons a p')
      then have "cs = p' @ t @ q" using pq by simp
      then have "str_includes cs t" using Cons.IH by blast
      then show ?thesis by simp
    qed
  qed
qed

lemma join_member:
  "x \<in> set xs \<Longrightarrow> \<exists>p q. join sep xs = p @ x @ q"
proof (induction sep xs rule: join.induct)
  case (1 sep)
  then show ?case by simp
next
  case (2 sep y)
  then have "join sep [y] = [] @ x @ []" by simp
  then show ?case by blast
next
  case (3 sep y z zs)
  show ?case
  proof (cases "x = y")
    case True
    then have "join sep (y # z # zs) = [] @ x @ (sep @ join sep (z # zs))" by simp
    then show ?thesis by blast
  next
    case False
    then have "x \<in> set (z # zs)" using 3 by simp
    then obtain p q where "join sep (z # zs) = p @ x @ q" using 3 by blast
    then have "join sep (y # z # zs) = (y @ sep @ p) @ x @ q" by simp
    then show ?thesis by blast
  qed
qed

lemma message_names_missing:
  assumes "f \<in> set missing"
  shows "str_includes (h @ join sep (map (\<lambda>f. pre @ g f) missing) @ t) (g f)"
proof -
  have "pre @ g f \<in> set (map (\<lambda>f. pre @ g f) missing)" using assms by auto
  then obtain p q where "join sep (map (\<lambda>f. pre @ g f) missing) = p @ (pre @ g f) @ q"
    using join_member by blast
  then have "h @ join sep (map (\<lambda>f. pre @ g f) missing) @ t = (h @ p @ pre) @ g f @ (q @ t)"
    by simp
  then show ?thesis unfolding str_includes_iff by blast
qed

lemma google_names:
  "toUpperCase (underscore_capitals ''customerId'') = ''CUSTOMER_ID''"
  "toUpperCase (underscore_capitals ''developerToken'') = ''DEVELOPER_TOKEN''"
  "toUpperCase (underscore_capitals ''clientId'') = ''CLIENT_ID''"
  "toUpperCase (underscore_capitals ''clientSecret'') = ''CLIENT_SECRET''"
  "toUpperCase (underscore_capitals ''refreshToken'') = ''REFRESH_TOKEN''"
  by code_simp+

lemma meta_names:
  "toUpperCase (underscore_capitals ''accessToken'') = ''ACCESS_TOKEN''"
  "toUpperCase (underscore_capitals ''appId'') = ''APP_ID''"
  "toUpperCase (underscore_capitals ''appSecret'') = ''APP_SECRET''"
  by code_simp+


lemma truthy_opt_val: "truthy (opt_val x) \<longleftrightarrow> (x \<noteq> None \<and> x \<noteq> Some [])"
  by (cases x) (auto simp: opt_val_def)

lemma google_message_names:
  assumes "f \<in> set google_requiredFields"
    and "\<not> truthy (GoogleAdsConfig_field cfg f)"
  shows "\<exists>msg. initializeGoogleAds cfg = Inl (new_Error msg)
           \<and> str_includes msg (''GOOGLE_ADS_'' @ toUpperCase (underscore_capitals f))"
proof -
  let ?missing = "filter (\<lambda>field. \<not> truthy (GoogleAdsConfig_field cfg field)) google_requiredFields"
  let ?g = "\<lambda>field. ''GOOGLE_ADS_'' @ toUpperCase (underscore_capitals field)"
  let ?h = "''Missing required Google Ads configuration. Please set the following environment variables:'' @ newline"
  let ?t = "newline @ newline @ ''You can create a .env file in the root directory with these variables.''"
  have mem: "f \<in> set ?missing" using assms by simp
  then have ne: "length ?missing > 0" by (cases ?missing) auto
  have fn: "(\<lambda>field. ''- GOOGLE_ADS_'' @ toUpperCase (underscore_capitals field))
              = (\<lambda>field. ''- '' @ ?g field)"
    by simp
  have "initializeGoogleAds cfg
          = Inl (new_Error (?h @ join newline (map (\<lambda>field. ''- '' @ ?g field) ?missing) @ ?t))"
    unfolding initializeGoogleAds_def Let_def fn using ne by simp
  moreover have "str_includes (?h @ join newline (map (\<lambda>field. ''- '' @ ?g field) ?missing) @ ?t) (?g f)"
    using mem by (rule message_names_missing)
  ultimately show ?thesis by blast
qed

lemma meta_message_names:
  assumes "f \<in> set meta_requiredFields"
    and "\<not> truthy (MetaAdsConfig_field
            \<lparr>accessToken = env ''META_ADS_ACCESS_TOKEN'', appId = env ''META_ADS_APP_ID'',
             appSecret = env ''META_ADS_APP_SECRET'', accountId = env ''META_ADS_ACCOUNT_ID''\<rparr> f)"
  shows "\<exists>msg. fst (initializeMetaAds env s) = Inl (new_Error msg)
           \<and> str_includes msg (''META_ADS_'' @ toUpperCase (underscore_capitals f))"
proof -
  let ?cfg = "\<lparr>accessToken = env ''META_ADS_ACCESS_TOKEN'', appId = env ''META_ADS_APP_ID'',
             appSecret = env ''META_ADS_APP_SECRET'', accountId = env ''META_ADS_ACCOUNT_ID''\<rparr>"
  let ?missing = "filter (\<lambda>field. \<not> truthy (MetaAdsConfig_field ?cfg field)) meta_requiredFields"
  let ?g = "\<lambda>field. ''META_ADS_'' @ toUpperCase (underscore_capitals field)"
  let ?h = "''Missing required Meta Ads configuration. Please set the following environment variables:'' @ newline"
  have mem: "f \<in> set ?missing" using assms by simp
  then have ne: "length ?missing > 0" by (cases ?missing) auto
  have fn: "(\<lambda>field. ''- META_ADS_'' @ toUpperCase (underscore_capitals field))
              = (\<lambda>field. ''- '' @ ?g field)"
    by simp
  have "fst (initializeMetaAds env s)
          = Inl (new_Error (?h @ join newline (map (\<lambda>field. ''- '' @ ?g field) ?missing) @ []))"
    unfolding initializeMetaAds_def Let_def fn using ne by simp
  moreover have "str_includes (?h @ join newline (map (\<lambda>field. ''- '' @ ?g field) ?missing) @ []) (?g f)"
    using mem by (rule message_names_missing)
  ultimately show ?thesis by blast
qed

lemma google_fields:
  "''customerId'' \<in> set google_requiredFields"
  "''developerToken'' \<in> set google_requiredFields"
  "''clientId'' \<in> set google_requiredFields"
  "''clientSecret'' \<in> set google_requiredFields"
  "''refreshToken'' \<in> set google_requiredFields"
  by (simp_all add: google_requiredFields_def)

lemma google_field_values:
  "GoogleAdsConfig_field c ''customerId'' = opt_val (customerId c)"
  "GoogleAdsConfig_field c ''developerToken'' = opt_val (developerToken c)"
  "GoogleAdsConfig_field c ''clientId'' = opt_val (clientId c)"
  "GoogleAdsConfig_field c ''clientSecret'' = opt_val (clientSecret c)"
  "GoogleAdsConfig_field c ''refreshToken'' = opt_val (refreshToken c)"
  by (simp_all add: GoogleAdsConfig_field_def)

lemma meta_fields:
  "''accessToken'' \<in> set meta_requiredFields"
  "''appId'' \<in> set meta_requiredFields"
  "''appSecret'' \<in> set meta_requiredFields"
  by (simp_all add: meta_requiredFields_def)

lemma meta_field_values:
  "MetaAdsConfig_field c ''accessToken'' = opt_val (accessToken c)"
  "MetaAdsConfig_field c ''appId'' = opt_val (appId c)"
  "MetaAdsConfig_field c ''appSecret'' = opt_val (appSecret c)"
  by (simp_all add: MetaAdsConfig_field_def)

lemma google_names_each:
  assumes "new_GoogleAdsMCPServer env = Inl (new_Error msg)"
  shows "\<not> truthy (opt_val (env ''GOOGLE_ADS_CUSTOMER_ID'')) \<Longrightarrow> str_includes msg ''GOOGLE_ADS_CUSTOMER_ID''"
    and "\<not> truthy (opt_val (env ''GOOGLE_ADS_DEVELOPER_TOKEN'')) \<Longrightarrow> str_includes msg ''GOOGLE_ADS_DEVELOPER_TOKEN''"
    and "\<not> truthy (opt_val (env ''GOOGLE_ADS_CLIENT_ID'')) \<Longrightarrow> str_includes msg ''GOOGLE_ADS_CLIENT_ID''"
    and "\<not> truthy (opt_val (env ''GOOGLE_ADS_CLIENT_SECRET'')) \<Longrightarrow> str_includes msg ''GOOGLE_ADS_CLIENT_SECRET''"
    and "\<not> truthy (opt_val (env ''GOOGLE_ADS_REFRESH_TOKEN'')) \<Longrightarrow> str_includes msg ''GOOGLE_ADS_REFRESH_TOKEN''"
proof -
  let ?cfg = "\<lparr>customerId = env ''GOOGLE_ADS_CUSTOMER_ID'',
        developerToken = env ''GOOGLE_ADS_DEVELOPER_TOKEN'',
        clientId = env ''GOOGLE_ADS_CLIENT_ID'',
        clientSecret = env ''GOOGLE_ADS_CLIENT_SECRET'',
        refreshToken = env ''GOOGLE_ADS_REFRESH_TOKEN''\<rparr>"
  have init: "initializeGoogleAds ?cfg = Inl (new_Error msg)"
    using assms by (simp add: new_GoogleAdsMCPServer_def)
  have each: "str_includes msg (''GOOGLE_ADS_'' @ toUpperCase (underscore_capitals f))"
    if "f \<in> set google_requiredFields" "\<not> truthy (GoogleAdsConfig_field ?cfg f)" for f
    using google_message_names [OF that] init by (auto simp: new_Error_def)
  show "\<not> truthy (opt_val (env ''GOOGLE_ADS_CUSTOMER_ID'')) \<Longrightarrow> str_includes msg ''GOOGLE_ADS_CUSTOMER_ID''"
    using each [OF google_fields(1)] by (simp add: google_field_values google_names)
  show "\<not> truthy (opt_val (env ''GOOGLE_ADS_DEVELOPER_TOKEN'')) \<Longrightarrow> str_includes msg ''GOOGLE_ADS_DEVELOPER_TOKEN''"
    using each [OF google_fields(2)] by (simp add: google_field_values google_names)
  show "\<not> truthy (opt_val (env ''GOOGLE_ADS_CLIENT_ID'')) \<Longrightarrow> str_includes msg ''GOOGLE_ADS_CLIENT_ID''"
    using each [OF google_fields(3)] by (simp add: google_field_values google_names)
  show "\<not> truthy (opt_val (env ''GOOGLE_ADS_CLIENT_SECRET'')) \<Longrightarrow> str_includes msg ''GOOGLE_ADS_CLIENT_SECRET''"
    using each [OF google_fields(4)] by (simp add: google_field_values google_names)
  show "\<not> truthy (opt_val (env ''GOOGLE_ADS_REFRESH_TOKEN'')) \<Longrightarrow> str_includes msg ''GOOGLE_ADS_REFRESH_TOKEN''"
    using each [OF google_fields(5)] by (simp add: google_field_values google_names)
qed

lemma google_throws:
  assumes "\<not> truthy (opt_val (env ''GOOGLE_ADS_CUSTOMER_ID''))
           \<or> \<not> truthy (opt_val (env ''GOOGLE_ADS_DEVELOPER_TOKEN''))
           \<or> \<not> truthy (opt_val (env ''GOOGLE_ADS_CLIENT_ID''))
           \<or> \<not> truthy (opt_val (env ''GOOGLE_ADS_CLIENT_SECRET''))
           \<or> \<not> truthy (opt_val (env ''GOOGLE_ADS_REFRESH_TOKEN''))"
  shows "\<exists>msg. new_GoogleAdsMCPServer env = Inl (new_Error msg)"
proof -
  let ?cfg = "\<lparr>customerId = env ''GOOGLE_ADS_CUSTOMER_ID'',
        developerToken = env ''GOOGLE_ADS_DEVELOPER_TOKEN'',
        clientId = env ''GOOGLE_ADS_CLIENT_ID'',
        clientSecret = env ''GOOGLE_ADS_CLIENT_SECRET'',
        refreshToken = env ''GOOGLE_ADS_REFRESH_TOKEN''\<rparr>"
  from assms obtain f where "f \<in> set google_requiredFields" "\<not> truthy (GoogleAdsConfig_field ?cfg f)"
    using google_fields google_field_values
    by (metis GoogleAdsConfig.select_convs(1-5))
  then show ?thesis
    using google_message_names unfolding new_GoogleAdsMCPServer_def by blast
qed


lemma meta_names_each:
  assumes "new_MetaAdsMCPServer env = Inl (new_Error msg)"
  shows "\<not> truthy (opt_val (env ''META_ADS_ACCESS_TOKEN'')) \<Longrightarrow> str_includes msg ''META_ADS_ACCESS_TOKEN''"
    and "\<not> truthy (opt_val (env ''META_ADS_APP_ID'')) \<Longrightarrow> str_includes msg ''META_ADS_APP_ID''"
    and "\<not> truthy (opt_val (env ''META_ADS_APP_SECRET'')) \<Longrightarrow> str_includes msg ''META_ADS_APP_SECRET''"
proof -
  let ?cfg = "\<lparr>accessToken = env ''META_ADS_ACCESS_TOKEN'', appId = env ''META_ADS_APP_ID'',
             appSecret = env ''META_ADS_APP_SECRET'', accountId = env ''META_ADS_ACCOUNT_ID''\<rparr>"
  let ?s = "\<lparr>api_ready = False, adsConfig = empty_MetaAdsConfig\<rparr>"
  have init: "fst (initializeMetaAds env ?s) = Inl (new_Error msg)"
    using assms by (simp add: new_MetaAdsMCPServer_def split: sum.splits)
  have each: "str_includes msg (''META_ADS_'' @ toUpperCase (underscore_capitals f))"
    if "f \<in> set meta_requiredFields" "\<not> truthy (MetaAdsConfig_field ?cfg f)" for f
    using meta_message_names [OF that, of ?s] init by (auto simp: new_Error_def)
  show "\<not> truthy (opt_val (env ''META_ADS_ACCESS_TOKEN'')) \<Longrightarrow> str_includes msg ''META_ADS_ACCESS_TOKEN''"
    using each [OF meta_fields(1)] by (simp add: meta_field_values meta_names)
  show "\<not> truthy (opt_val (env ''META_ADS_APP_ID'')) \<Longrightarrow> str_includes msg ''META_ADS_APP_ID''"
    using each [OF meta_fields(2)] by (simp add: meta_field_values meta_names)
  show "\<not> truthy (opt_val (env ''META_ADS_APP_SECRET'')) \<Longrightarrow> str_includes msg ''META_ADS_APP_SECRET''"
    using each [OF meta_fields(3)] by (simp add: meta_field_values meta_names)
qed

lemma meta_throws:
  assumes "\<not> truthy (opt_val (env ''META_ADS_ACCESS_TOKEN''))
           \<or> \<not> truthy (opt_val (env ''META_ADS_APP_ID''))
           \<or> \<not> truthy (opt_val (env ''META_ADS_APP_SECRET''))"
  shows "\<exists>msg. new_MetaAdsMCPServer env = Inl (new_Error msg)"
proof -
  let ?cfg = "\<lparr>accessToken = env ''META_ADS_ACCESS_TOKEN'', appId = env ''META_ADS_APP_ID'',
             appSecret = env ''META_ADS_APP_SECRET'', accountId = env ''META_ADS_ACCOUNT_ID''\<rparr>"
  from assms obtain f where "f \<in> set meta_requiredFields" "\<not> truthy (MetaAdsConfig_field ?cfg f)"
    using meta_fields meta_field_values
    by (metis MetaAdsConfig.select_convs(1-3))
  then obtain msg where
    "fst (initializeMetaAds env \<lparr>api_ready = False, adsConfig = empty_MetaAdsConfig\<rparr>) = Inl (new_Error msg)"
    using meta_message_names by blast
  then have "new_MetaAdsMCPServer env = Inl (new_Error msg)"
    by (simp add: new_MetaAdsMCPServer_def)
  then show ?thesis by blast
qed

text \<open>
  C8. When a required variable is absent from the environment (or empty), constructing
  the Google Ads server, respectively the Meta Ads server, throws an \<open>Error\<close>; its
  message contains the name of every required variable that is absent, and \<open>main\<close>
  ends the process with status 1 instead of serving.
\<close>

theorem C8_missing_configuration_refuses_start:
  "(\<not> truthy (opt_val (env ''GOOGLE_ADS_CUSTOMER_ID''))
      \<or> \<not> truthy (opt_val (env ''GOOGLE_ADS_DEVELOPER_TOKEN''))
      \<or> \<not> truthy (opt_val (env ''GOOGLE_ADS_CLIENT_ID''))
      \<or> \<not> truthy (opt_val (env ''GOOGLE_ADS_CLIENT_SECRET''))
      \<or> \<not> truthy (opt_val (env ''GOOGLE_ADS_REFRESH_TOKEN'')) \<longrightarrow>
    (\<exists>msg. new_GoogleAdsMCPServer env = Inl (new_Error msg)
       \<and> google_main env = ProcessExit 1
       \<and> (\<not> truthy (opt_val (env ''GOOGLE_ADS_CUSTOMER_ID'')) \<longrightarrow>
            str_includes msg ''GOOGLE_ADS_CUSTOMER_ID'')
       \<and> (\<not> truthy (opt_val (env ''GOOGLE_ADS_DEVELOPER_TOKEN'')) \<longrightarrow>
            str_includes msg ''GOOGLE_ADS_DEVELOPER_TOKEN'')
       \<and> (\<not> truthy (opt_val (env ''GOOGLE_ADS_CLIENT_ID'')) \<longrightarrow>
            str_includes msg ''GOOGLE_ADS_CLIENT_ID'')
       \<and> (\<not> truthy (opt_val (env ''GOOGLE_ADS_CLIENT_SECRET'')) \<longrightarrow>
            str_includes msg ''GOOGLE_ADS_CLIENT_SECRET'')
       \<and> (\<not> truthy (opt_val (env ''GOOGLE_ADS_REFRESH_TOKEN'')) \<longrightarrow>
            str_includes msg ''GOOGLE_ADS_REFRESH_TOKEN'')))
   \<and> (\<not> truthy (opt_val (env ''META_ADS_ACCESS_TOKEN''))
      \<or> \<not> truthy (opt_val (env ''META_ADS_APP_ID''))
      \<or> \<not> truthy (opt_val (env ''META_ADS_APP_SECRET'')) \<longrightarrow>
    (\<exists>msg. new_MetaAdsMCPServer env = Inl (new_Error msg)
       \<and> meta_main env = ProcessExit 1
       \<and> (\<not> truthy (opt_val (env ''META_ADS_ACCESS_TOKEN'')) \<longrightarrow>
            str_includes msg ''META_ADS_ACCESS_TOKEN'')
       \<and> (\<not> truthy (opt_val (env ''META_ADS_APP_ID'')) \<longrightarrow>
            str_includes msg ''META_ADS_APP_ID'')
       \<and> (\<not> truthy (opt_val (env ''META_ADS_APP_SECRET'')) \<longrightarrow>
            str_includes msg ''META_ADS_APP_SECRET'')))"
proof (intro conjI impI)
  assume "\<not> truthy (opt_val (env ''GOOGLE_ADS_CUSTOMER_ID''))
      \<or> \<not> truthy (opt_val (env ''GOOGLE_ADS_DEVELOPER_TOKEN''))
      \<or> \<not> truthy (opt_val (env ''GOOGLE_ADS_CLIENT_ID''))
      \<or> \<not> truthy (opt_val (env ''GOOGLE_ADS_CLIENT_SECRET''))
      \<or> \<not> truthy (opt_val (env ''GOOGLE_ADS_REFRESH_TOKEN''))"
  then obtain msg where t: "new_GoogleAdsMCPServer env = Inl (new_Error msg)"
    using google_throws by blast
  then have "google_main env = ProcessExit 1"
    by (simp add: google_main_def)
  then show "\<exists>msg. new_GoogleAdsMCPServer env = Inl (new_Error msg)
       \<and> google_main env = ProcessExit 1
       \<and> (\<not> truthy (opt_val (env ''GOOGLE_ADS_CUSTOMER_ID'')) \<longrightarrow>
            str_includes msg ''GOOGLE_ADS_CUSTOMER_ID'')
       \<and> (\<not> truthy (opt_val (env ''GOOGLE_ADS_DEVELOPER_TOKEN'')) \<longrightarrow>
            str_includes msg ''GOOGLE_ADS_DEVELOPER_TOKEN'')
       \<and> (\<not> truthy (opt_val (env ''GOOGLE_ADS_CLIENT_ID'')) \<longrightarrow>
            str_includes msg ''GOOGLE_ADS_CLIENT_ID'')
       \<and> (\<not> truthy (opt_val (env ''GOOGLE_ADS_CLIENT_SECRET'')) \<longrightarrow>
            str_includes msg ''GOOGLE_ADS_CLIENT_SECRET'')
       \<and> (\<not> truthy (opt_val (env ''GOOGLE_ADS_REFRESH_TOKEN'')) \<longrightarrow>
            str_includes msg ''GOOGLE_ADS_REFRESH_TOKEN'')"
    using t google_names_each [OF t] by blast
next
  assume "\<not> truthy (opt_val (env ''META_ADS_ACCESS_TOKEN''))
      \<or> \<not> truthy (opt_val (env ''META_ADS_APP_ID''))
      \<or> \<not> truthy (opt_val (env ''META_ADS_APP_SECRET''))"
  then obtain msg where t: "new_MetaAdsMCPServer env = Inl (new_Error msg)"
    using meta_throws by blast
  then have "meta_main env = ProcessExit 1"
    by (simp add: meta_main_def)
  then show "\<exists>msg. new_MetaAdsMCPServer env = Inl (new_Error msg)
       \<and> meta_main env = ProcessExit 1
       \<and> (\<not> truthy (opt_val (env ''META_ADS_ACCESS_TOKEN'')) \<longrightarrow>
            str_includes msg ''META_ADS_ACCESS_TOKEN'')
       \<and> (\<not> truthy (opt_val (env ''META_ADS_APP_ID'')) \<longrightarrow>
            str_includes msg ''META_ADS_APP_ID'')
       \<and> (\<not> truthy (opt_val (env ''META_ADS_APP_SECRET'')) \<longrightarrow>
            str_includes msg ''META_ADS_APP_SECRET'')"
    using t meta_names_each [OF t] by blast
qed

theorem C8_missing_configuration_witness:
  "\<not> truthy (opt_val ((map_of [(''GOOGLE_ADS_CUSTOMER_ID'', ''1234567890'')]) ''GOOGLE_ADS_DEVELOPER_TOKEN''))
   \<and> \<not> truthy (opt_val ((map_of [(''GOOGLE_ADS_CUSTOMER_ID'', ''1234567890'')]) ''META_ADS_APP_ID''))
   \<and> (\<exists>msg. new_GoogleAdsMCPServer ((map_of [(''GOOGLE_ADS_CUSTOMER_ID'', ''1234567890'')]))
               = Inl (new_Error msg)
         \<and> str_includes msg ''GOOGLE_ADS_DEVELOPER_TOKEN'')
   \<and> google_main ((map_of [(''GOOGLE_ADS_CUSTOMER_ID'', ''1234567890'')])) = ProcessExit 1
   \<and> (\<exists>msg. new_MetaAdsMCPServer ((map_of [(''GOOGLE_ADS_CUSTOMER_ID'', ''1234567890'')]))
               = Inl (new_Error msg)
         \<and> str_includes msg ''META_ADS_APP_ID'')
   \<and> meta_main ((map_of [(''GOOGLE_ADS_CUSTOMER_ID'', ''1234567890'')])) = ProcessExit 1"
proof -
  have g: "\<not> truthy (opt_val ((map_of [(''GOOGLE_ADS_CUSTOMER_ID'', ''1234567890'')]) ''GOOGLE_ADS_DEVELOPER_TOKEN''))"
    by (simp add: opt_val_def)
  have m: "\<not> truthy (opt_val ((map_of [(''GOOGLE_ADS_CUSTOMER_ID'', ''1234567890'')]) ''META_ADS_APP_ID''))"
    by (simp add: opt_val_def)
  show ?thesis
    using g m C8_missing_configuration_refuses_start
                [of "(map_of [(''GOOGLE_ADS_CUSTOMER_ID'', ''1234567890'')])"]
    by blast
qed

subsection \<open>Free-form queries\<close>

lemma str_includes_dropWhile:
  assumes "t \<noteq> []" and "\<not> P (hd t)"
  shows "str_includes (dropWhile P s) t = str_includes s t"
proof (induction s)
  case Nil
  then show ?case by simp
next
  case (Cons c cs)
  show ?case
  proof (cases "P c")
    case True
    then have "\<not> startsWith (c # cs) t"
      using assms by (cases t) auto
    then show ?thesis using True Cons by simp
  next
    case False
    then show ?thesis by simp
  qed
qed

lemma str_includes_rev: "str_includes (rev s) (rev t) = str_includes s t"
proof -
  have "(\<exists>p q. rev s = p @ rev t @ q) \<longleftrightarrow> (\<exists>p q. s = p @ t @ q)"
  proof
    assume "\<exists>p q. rev s = p @ rev t @ q"
    then obtain p q where "rev s = p @ rev t @ q" by blast
    then have "rev (rev s) = rev (p @ rev t @ q)" by simp
    then have "s = rev q @ t @ rev p" by simp
    then show "\<exists>p q. s = p @ t @ q" by blast
  next
    assume "\<exists>p q. s = p @ t @ q"
    then obtain p q where "s = p @ t @ q" by blast
    then have "rev s = rev q @ rev t @ rev p" by simp
    then show "\<exists>p q. rev s = p @ rev t @ q" by blast
  qed
  then show ?thesis by (simp add: str_includes_iff)
qed

lemma str_includes_trim:
  assumes "t \<noteq> []" and "\<not> js_whitespace (hd t)" and "\<not> js_whitespace (last t)"
  shows "str_includes (trim s) t = str_includes s t"
proof -
  have r: "rev t \<noteq> []" "\<not> js_whitespace (hd (rev t))"
    using assms by (simp_all add: hd_rev)
  have "str_includes (trim s) t = str_includes (dropWhile js_whitespace (rev (dropWhile js_whitespace s))) (rev t)"
    unfolding trim_def using str_includes_rev [of "dropWhile js_whitespace (rev (dropWhile js_whitespace s))" "rev t"]
    by simp
  also have "\<dots> = str_includes (rev (dropWhile js_whitespace s)) (rev t)"
    using r by (rule str_includes_dropWhile)
  also have "\<dots> = str_includes (dropWhile js_whitespace s) t"
    by (rule str_includes_rev)
  also have "\<dots> = str_includes s t"
    using assms(1,2) by (rule str_includes_dropWhile)
  finally show ?thesis .
qed

lemma whitespace_lower_char: "js_whitespace (lower_char c) = js_whitespace c"
  by (auto simp: js_whitespace_def lower_char_def Let_def)

lemma toLowerCase_dropWhile:
  "toLowerCase (dropWhile js_whitespace s) = dropWhile js_whitespace (toLowerCase s)"
  by (simp add: toLowerCase_def dropWhile_map comp_def whitespace_lower_char)

lemma toLowerCase_trim: "toLowerCase (trim s) = trim (toLowerCase s)"
proof -
  have "toLowerCase (rev xs) = rev (toLowerCase xs)" for xs
    by (simp add: toLowerCase_def rev_map)
  then show ?thesis
    by (simp add: trim_def toLowerCase_dropWhile)
qed

lemma limit_in_trimmed:
  "str_includes (toLowerCase (trim q)) ''limit'' = str_includes (toLowerCase q) ''limit''"
  unfolding toLowerCase_trim
  by (rule str_includes_trim) (simp_all add: js_whitespace_def)


lemma format_catch_log: "snd (try_catch m (format_catch prefix)) = snd m"
  by (simp add: format_catch_def comp_defs split: prod.splits sum.splits)




subsection \<open>A limit of zero\<close>

lemma list_params_agree:
  assumes "get_prop args ''limit'' = Num 0" and "get_prop args' ''limit'' = Undefined"
    and "\<forall>k. k \<noteq> ''limit'' \<longrightarrow> get_prop args' k = get_prop args k"
  shows "list_params args' = list_params args"
  using assms by (simp add: list_params_def js_or_def)

text \<open>
  C9. A limit of \<open>0\<close> is falsy, so \<open>args.limit || default\<close> takes the default: the
  three Meta Ads list tools (registered handlers and HTTP dispatcher) pass
  \<open>limit = 25\<close>, the Google Ads \<open>list_campaigns\<close> query ends in \<open>LIMIT 50\<close>, and
  \<open>execute_gaql_query\<close> appends \<open>LIMIT 100\<close> to a query that has no bound. Each
  of these tools behaves on arguments with \<open>limit = 0\<close> exactly as on the same
  arguments without a limit.
\<close>

theorem C9_zero_limit_is_default:
  assumes "get_prop args ''limit'' = Num 0"
  shows "get_prop (list_params args) ''limit'' = Num 25
     \<and> (api_ready ms
          \<and> truthy (js_or (get_prop args ''accountId'') (opt_val (accountId (adsConfig ms)))) \<longrightarrow>
          (\<exists>account.
             snd (meta_list_campaigns_tool w ms args)
               = [AdAccount_getCampaigns account campaign_list_fields (list_params args)]
             \<and> snd (call_list_campaigns w ms args)
               = [AdAccount_getCampaigns account campaign_list_fields (list_params args)]))
     \<and> (api_ready ms \<longrightarrow>
          snd (meta_list_adsets_tool w ms args)
            = [Campaign_getAdSets (get_prop args ''campaignId'') adset_fields (list_params args)]
          \<and> snd (call_list_adsets w ms args)
            = [Campaign_getAdSets (get_prop args ''campaignId'') adset_fields (list_params args)]
          \<and> snd (meta_list_ads_tool w ms args)
            = [AdSet_getAds (get_prop args ''adSetId'') ad_fields (list_params args)]
          \<and> snd (call_list_ads w ms args)
            = [AdSet_getAds (get_prop args ''adSetId'') ad_fields (list_params args)])
     \<and> (googleAds_ready gs
          \<and> truthy (js_or (get_prop args ''customerId'') (opt_val (customerId (google_config gs)))) \<longrightarrow>
          (\<exists>customer token.
             snd (google_list_campaigns_tool w gs args)
               = [Customer_query customer token (list_campaigns_query (Num 50))]))
     \<and> (googleAds_ready gs \<and> get_prop args ''query'' = Str q \<and> q \<noteq> []
          \<and> \<not> str_includes (toLowerCase q) ''limit'' \<longrightarrow>
          snd (execute_gaql_query_tool w gs args)
            = [Customer_query (get_prop args ''customerId'') (opt_val (refreshToken (google_config gs)))
                 (trim q @ '' LIMIT 100'')])
     \<and> (get_prop args' ''limit'' = Undefined
          \<and> (\<forall>k. k \<noteq> ''limit'' \<longrightarrow> get_prop args' k = get_prop args k) \<longrightarrow>
          meta_list_campaigns_tool w ms args' = meta_list_campaigns_tool w ms args
          \<and> meta_list_adsets_tool w ms args' = meta_list_adsets_tool w ms args
          \<and> meta_list_ads_tool w ms args' = meta_list_ads_tool w ms args
          \<and> call_list_campaigns w ms args' = call_list_campaigns w ms args
          \<and> call_list_adsets w ms args' = call_list_adsets w ms args
          \<and> call_list_ads w ms args' = call_list_ads w ms args
          \<and> google_list_campaigns_tool w gs args' = google_list_campaigns_tool w gs args
          \<and> execute_gaql_query_tool w gs args' = execute_gaql_query_tool w gs args)"
proof (intro conjI impI)
  show "get_prop (list_params args) ''limit'' = Num 25"
    using assms by (rule list_params_limit_zero)
next
  assume a: "api_ready ms
          \<and> truthy (js_or (get_prop args ''accountId'') (opt_val (accountId (adsConfig ms))))"
  let ?acc = "''act_'' @ ToString (js_or (get_prop args ''accountId'') (opt_val (accountId (adsConfig ms))))"
  have 1: "snd (meta_list_campaigns_tool w ms args)
             = [AdAccount_getCampaigns ?acc campaign_list_fields (list_params args)]"
    using a by (simp add: meta_list_campaigns_tool_def Let_def try_catch_log)
  have 2: "snd (call_list_campaigns w ms args)
             = [AdAccount_getCampaigns ?acc campaign_list_fields (list_params args)]"
    using a by (simp add: call_list_campaigns_def Let_def and_then_vendor_log)
  show "\<exists>account.
             snd (meta_list_campaigns_tool w ms args)
               = [AdAccount_getCampaigns account campaign_list_fields (list_params args)]
             \<and> snd (call_list_campaigns w ms args)
               = [AdAccount_getCampaigns account campaign_list_fields (list_params args)]"
    using 1 2 by blast
next
  assume a: "api_ready ms"
  show "snd (meta_list_adsets_tool w ms args)
            = [Campaign_getAdSets (get_prop args ''campaignId'') adset_fields (list_params args)]"
    using a by (simp add: meta_list_adsets_tool_def try_catch_log)
  show "snd (call_list_adsets w ms args)
            = [Campaign_getAdSets (get_prop args ''campaignId'') adset_fields (list_params args)]"
    using a by (simp add: call_list_adsets_def and_then_vendor_log)
  show "snd (meta_list_ads_tool w ms args)
            = [AdSet_getAds (get_prop args ''adSetId'') ad_fields (list_params args)]"
    using a by (simp add: meta_list_ads_tool_def try_catch_log)
  show "snd (call_list_ads w ms args)
            = [AdSet_getAds (get_prop args ''adSetId'') ad_fields (list_params args)]"
    using a by (simp add: call_list_ads_def and_then_vendor_log)
next
  assume a: "googleAds_ready gs
          \<and> truthy (js_or (get_prop args ''customerId'') (opt_val (customerId (google_config gs))))"
  have "snd (google_list_campaigns_tool w gs args)
          = [Customer_query (js_or (get_prop args ''customerId'') (opt_val (customerId (google_config gs))))
               (opt_val (refreshToken (google_config gs))) (list_campaigns_query (Num 50))]"
    using a assms
    by (simp add: google_list_campaigns_tool_def Let_def format_catch_log and_then_vendor_log)
       (simp add: js_or_def)
  then show "\<exists>customer token.
             snd (google_list_campaigns_tool w gs args)
               = [Customer_query customer token (list_campaigns_query (Num 50))]"
    by blast
next
  assume a: "googleAds_ready gs \<and> get_prop args ''query'' = Str q \<and> q \<noteq> []
          \<and> \<not> str_includes (toLowerCase q) ''limit''"
  then have f: "gaql_finalQuery (Str q) (get_prop args ''limit'') = Inr (trim q @ '' LIMIT 100'')"
    using assms by (simp add: gaql_finalQuery_def Let_def limit_in_trimmed js_or_def show_int_100)
  have "snd (execute_gaql_query_tool w gs args)
          = snd (and_then (lift (gaql_finalQuery (Str q) (get_prop args ''limit'')))
                  (\<lambda>finalQuery. and_then
                     (await_vendor w (Customer_query (get_prop args ''customerId'')
                                        (opt_val (refreshToken (google_config gs))) finalQuery))
                     (\<lambda>results. ret (text_content (JSON_stringify w results)))))"
    using a by (simp add: execute_gaql_query_tool_def format_catch_log)
  also have "\<dots> = snd (and_then
                     (await_vendor w (Customer_query (get_prop args ''customerId'')
                                        (opt_val (refreshToken (google_config gs))) (trim q @ '' LIMIT 100'')))
                     (\<lambda>results. ret (text_content (JSON_stringify w results))))"
    unfolding f by (simp add: lift_def and_then_def split: prod.splits)
  also have "\<dots> = [Customer_query (get_prop args ''customerId'')
                       (opt_val (refreshToken (google_config gs))) (trim q @ '' LIMIT 100'')]"
    by (rule and_then_vendor_log)
  finally show "snd (execute_gaql_query_tool w gs args)
            = [Customer_query (get_prop args ''customerId'') (opt_val (refreshToken (google_config gs)))
                 (trim q @ '' LIMIT 100'')]" .
next
  assume b: "get_prop args' ''limit'' = Undefined
          \<and> (\<forall>k. k \<noteq> ''limit'' \<longrightarrow> get_prop args' k = get_prop args k)"
  then have lp: "list_params args' = list_params args"
    using assms list_params_agree by blast
  have k: "get_prop args' ''accountId'' = get_prop args ''accountId''"
    "get_prop args' ''campaignId'' = get_prop args ''campaignId''"
    "get_prop args' ''adSetId'' = get_prop args ''adSetId''"
    "get_prop args' ''customerId'' = get_prop args ''customerId''"
    "get_prop args' ''query'' = get_prop args ''query''"
    using b by simp_all
  have l: "js_or (get_prop args' ''limit'') d = js_or (get_prop args ''limit'') d" for d
    using b assms by (simp add: js_or_def)
  show "meta_list_campaigns_tool w ms args' = meta_list_campaigns_tool w ms args"
    by (simp add: meta_list_campaigns_tool_def Let_def lp k)
  show "meta_list_adsets_tool w ms args' = meta_list_adsets_tool w ms args"
    by (simp add: meta_list_adsets_tool_def lp k)
  show "meta_list_ads_tool w ms args' = meta_list_ads_tool w ms args"
    by (simp add: meta_list_ads_tool_def lp k)
  show "call_list_campaigns w ms args' = call_list_campaigns w ms args"
    by (simp add: call_list_campaigns_def Let_def lp k)
  show "call_list_adsets w ms args' = call_list_adsets w ms args"
    by (simp add: call_list_adsets_def lp k)
  show "call_list_ads w ms args' = call_list_ads w ms args"
    by (simp add: call_list_ads_def lp k)
  show "google_list_campaigns_tool w gs args' = google_list_campaigns_tool w gs args"
    by (simp add: google_list_campaigns_tool_def Let_def l k)
  have "gaql_finalQuery x (get_prop args' ''limit'') = gaql_finalQuery x (get_prop args ''limit'')" for x
    using b assms by (cases x) (simp_all add: gaql_finalQuery_def js_or_def Let_def)
  then show "execute_gaql_query_tool w gs args' = execute_gaql_query_tool w gs args"
    by (simp add: execute_gaql_query_tool_def k)
qed

theorem C9_zero_limit_witness:
  "get_prop (Obj [(''limit'', Num 0), (''accountId'', Str ''99''), (''campaignId'', Str ''c1''),
              (''adSetId'', Str ''a1''), (''customerId'', Str ''123''),
              (''query'', Str ''SELECT campaign.id FROM campaign'')]) ''limit'' = Num 0
   \<and> get_prop (Obj [(''accountId'', Str ''99''), (''campaignId'', Str ''c1''),
              (''adSetId'', Str ''a1''), (''customerId'', Str ''123''),
              (''query'', Str ''SELECT campaign.id FROM campaign'')]) ''limit'' = Undefined
   \<and> snd (meta_list_adsets_tool \<lparr>vendor = (\<lambda>c. Inr (Arr [])), JSON_stringify = ToString\<rparr>
            \<lparr>api_ready = True, adsConfig = empty_MetaAdsConfig\<rparr>
            (Obj [(''limit'', Num 0), (''accountId'', Str ''99''), (''campaignId'', Str ''c1''),
              (''adSetId'', Str ''a1''), (''customerId'', Str ''123''),
              (''query'', Str ''SELECT campaign.id FROM campaign'')]))
       = [Campaign_getAdSets (Str ''c1'') adset_fields (Obj [(''limit'', Num 25)])]
   \<and> snd (execute_gaql_query_tool \<lparr>vendor = (\<lambda>c. Inr (Arr [])), JSON_stringify = ToString\<rparr>
            \<lparr>googleAds_ready = True,
          google_config = \<lparr>customerId = Some ''123'', developerToken = Some ''d'', clientId = Some ''c'',
                           clientSecret = Some ''s'', refreshToken = Some ''tok''\<rparr>\<rparr>
            (Obj [(''limit'', Num 0), (''accountId'', Str ''99''), (''campaignId'', Str ''c1''),
              (''adSetId'', Str ''a1''), (''customerId'', Str ''123''),
              (''query'', Str ''SELECT campaign.id FROM campaign'')]))
       = [Customer_query (Str ''123'') (Str ''tok'') ''SELECT campaign.id FROM campaign LIMIT 100'']
   \<and> meta_list_campaigns_tool \<lparr>vendor = (\<lambda>c. Inr (Arr [])), JSON_stringify = ToString\<rparr>
         \<lparr>api_ready = True, adsConfig = empty_MetaAdsConfig\<rparr>
         (Obj [(''accountId'', Str ''99''), (''campaignId'', Str ''c1''),
              (''adSetId'', Str ''a1''), (''customerId'', Str ''123''),
              (''query'', Str ''SELECT campaign.id FROM campaign'')])
       = meta_list_campaigns_tool \<lparr>vendor = (\<lambda>c. Inr (Arr [])), JSON_stringify = ToString\<rparr>
           \<lparr>api_ready = True, adsConfig = empty_MetaAdsConfig\<rparr>
           (Obj [(''limit'', Num 0), (''accountId'', Str ''99''), (''campaignId'', Str ''c1''),
              (''adSetId'', Str ''a1''), (''customerId'', Str ''123''),
              (''query'', Str ''SELECT campaign.id FROM campaign'')])"
proof -
  have 1: "str_includes (toLowerCase ''SELECT campaign.id FROM campaign'') ''limit'' = False"
    by code_simp
  have 2: "trim ''SELECT campaign.id FROM campaign'' = ''SELECT campaign.id FROM campaign''"
    by code_simp
  show ?thesis
    using C9_zero_limit_is_default
      [of "(Obj [(''limit'', Num 0), (''accountId'', Str ''99''), (''campaignId'', Str ''c1''),
              (''adSetId'', Str ''a1''), (''customerId'', Str ''123''),
              (''query'', Str ''SELECT campaign.id FROM campaign'')])"
          "\<lparr>api_ready = True, adsConfig = empty_MetaAdsConfig\<rparr>"
          "\<lparr>vendor = (\<lambda>c. Inr (Arr [])), JSON_stringify = ToString\<rparr>"
          "\<lparr>googleAds_ready = True,
          google_config = \<lparr>customerId = Some ''123'', developerToken = Some ''d'', clientId = Some ''c'',
                           clientSecret = Some ''s'', refreshToken = Some ''tok''\<rparr>\<rparr>"
          "''SELECT campaign.id FROM campaign''"
          "(Obj [(''accountId'', Str ''99''), (''campaignId'', Str ''c1''),
              (''adSetId'', Str ''a1''), (''customerId'', Str ''123''),
              (''query'', Str ''SELECT campaign.id FROM campaign'')])"]
    by (simp add: 1 2 js_or_def opt_val_def list_params_def)
qed

end
